theory Spec2Isabelle
  imports Main "HOL-Library.Word" "HOL-Library.Stream"
begin

section \<open>Gate alarm controller: data model\<close>

text \<open>
  The controller (\<^verbatim>\<open>controller/src/main.cpp\<close>) is an Arduino sketch for an AVR board:
  \<^verbatim>\<open>unsigned long\<close> and \<^verbatim>\<open>long\<close> are 32 bits wide, \<^verbatim>\<open>unsigned int\<close> is 16 bits wide.
  Both 32-bit types are modelled as \<open>32 word\<close>; a \<^verbatim>\<open>long\<close> is read with \<open>sint\<close>.
  Arithmetic that mixes \<^verbatim>\<open>long\<close> and \<^verbatim>\<open>unsigned long\<close> is unsigned in C++ and wraps
  modulo \<open>2 ^ 32\<close>, which is what word arithmetic does. The only purely signed
  arithmetic is the decimal accumulation in \<^verbatim>\<open>processKeypadDigit\<close>; it is modelled
  with the two's complement wrap-around of the target, and every theorem that
  depends on its value states the range in which no overflow happens.
\<close>

type_synonym u32 = "32 word"
type_synonym s32 = "32 word"
type_synonym u16 = "16 word"

definition MILLIS_PER_SECOND :: u32 where "MILLIS_PER_SECOND = 1000"
definition SECONDS_PER_MINUTE :: u32 where "SECONDS_PER_MINUTE = 60"
definition MILLIS_PER_MINUTE :: u32 where
  "MILLIS_PER_MINUTE = MILLIS_PER_SECOND * SECONDS_PER_MINUTE"

definition LCD_WIDTH :: u16 where "LCD_WIDTH = 16"

definition ALARM_LED_PIN :: nat where "ALARM_LED_PIN = 11"
definition ALARM_BUZZER_PIN :: nat where "ALARM_BUZZER_PIN = 10"
definition HEARTBEAT_LED_PIN :: nat where "HEARTBEAT_LED_PIN = 12"

definition SUSPEND_OFF :: s32 where "SUSPEND_OFF = 0"
definition SUSPEND_INFINITE :: s32 where "SUSPEND_INFINITE = - 1"

definition DIGIT_ENTRY_BASE :: s32 where "DIGIT_ENTRY_BASE = 10"

definition HASH_KEY :: int where "HASH_KEY = - 1"
definition STAR_KEY :: int where "STAR_KEY = - 2"
definition INVALID_KEY :: int where "INVALID_KEY = - 9"

definition DISPLAY_UPDATE_DELTA :: u32 where "DISPLAY_UPDATE_DELTA = 250"

definition ALARM_BUZZER_ON_TIME :: u32 where "ALARM_BUZZER_ON_TIME = 1500"
definition ALARM_BUZZER_OFF_TIME :: u32 where "ALARM_BUZZER_OFF_TIME = 1000"
definition ALARM_BUZZER_CYCLE_TIME :: u32 where
  "ALARM_BUZZER_CYCLE_TIME = ALARM_BUZZER_ON_TIME + ALARM_BUZZER_OFF_TIME"

definition ALARM_LED_ON_TIME :: u32 where "ALARM_LED_ON_TIME = 250"
definition ALARM_LED_OFF_TIME :: u32 where "ALARM_LED_OFF_TIME = 250"
definition ALARM_LED_CYCLE_TIME :: u32 where
  "ALARM_LED_CYCLE_TIME = ALARM_LED_ON_TIME + ALARM_LED_OFF_TIME"

definition HEARTBEAT_LED_ON_TIME :: u32 where "HEARTBEAT_LED_ON_TIME = 100"
definition HEARTBEAT_LED_OFF_TIME :: u32 where "HEARTBEAT_LED_OFF_TIME = 8000"
definition HEARTBEAT_LED_CYCLE_TIME :: u32 where
  "HEARTBEAT_LED_CYCLE_TIME = HEARTBEAT_LED_ON_TIME + HEARTBEAT_LED_OFF_TIME"

definition LCD_BACKLIGHT_TIMEOUT :: u32 where "LCD_BACKLIGHT_TIMEOUT = 10000"

text \<open>
  The state is the sketch's global variables, the two \<^verbatim>\<open>static\<close> strings of
  \<^verbatim>\<open>writeLinesOnLCD\<close>, the devices the sketch writes to (output pins, the LCD and its
  backlight) and the clock. \<^verbatim>\<open>millis()\<close> is called many times in one pass of
  \<^verbatim>\<open>loop()\<close>, and every call is a reading of its own: the field \<open>clock\<close> is the
  stream of the readings still to come, and a call takes the head of it.
  The serial diagnostics (\<^verbatim>\<open>DBGprint\<close>) are not modelled.
\<close>

record state =
  alarmSounding :: bool
  gateOpen :: bool
  suspendStartTime :: u32
  totalSuspendTime :: s32
  suspendTimeAccumulator :: s32
  isUpdatingSuspendTime :: bool
  lastDisplayUpdate :: u32
  alarmBuzzerPulseStartTime :: u32
  alarmLEDPulseStartTime :: u32
  heartbeatLEDPulseStartTime :: u32
  lcdBacklightTimeoutStartTime :: u32
  oldLine1 :: string
  oldLine2 :: string
  pins :: "nat \<Rightarrow> bool"
  lcdBacklight :: bool
  lcdCursor :: "nat \<times> nat"
  lcdScreen :: "((nat \<times> nat) \<times> string) list"
  clock :: "u32 stream"

text \<open>What one pass of \<^verbatim>\<open>loop()\<close> polls: the debounced switch and the keypad
  (\<^verbatim>\<open>getKey()\<close> returns the character 0 when no key was pressed).\<close>

record input =
  isPressed :: bool
  getKey :: char

section \<open>Devices\<close>

definition millis :: "state \<Rightarrow> u32 \<times> state" where
  "millis s = (shd (clock s), s\<lparr>clock := stl (clock s)\<rparr>)"

definition digitalWrite :: "nat \<Rightarrow> bool \<Rightarrow> state \<Rightarrow> state" where
  "digitalWrite pin v s = s\<lparr>pins := (pins s)(pin := v)\<rparr>"

definition lcd_backlight :: "state \<Rightarrow> state" where
  "lcd_backlight s = s\<lparr>lcdBacklight := True\<rparr>"

definition lcd_noBacklight :: "state \<Rightarrow> state" where
  "lcd_noBacklight s = s\<lparr>lcdBacklight := False\<rparr>"

definition lcd_clear :: "state \<Rightarrow> state" where
  "lcd_clear s = s\<lparr>lcdCursor := (0, 0), lcdScreen := []\<rparr>"

definition lcd_setCursor :: "nat \<Rightarrow> nat \<Rightarrow> state \<Rightarrow> state" where
  "lcd_setCursor col row s = s\<lparr>lcdCursor := (col, row)\<rparr>"

definition lcd_print :: "string \<Rightarrow> state \<Rightarrow> state" where
  "lcd_print txt s =
     s\<lparr>lcdScreen := lcdScreen s @ [(lcdCursor s, txt)],
       lcdCursor := (fst (lcdCursor s) + length txt, snd (lcdCursor s))\<rparr>"

subsection \<open>Decimal text of a number (the \<^verbatim>\<open>String\<close> constructors)\<close>

definition digit_char :: "nat \<Rightarrow> char" where
  "digit_char d = ''0123456789'' ! d"

function dec_of_nat :: "nat \<Rightarrow> string" where
  "dec_of_nat n = (if n < 10 then [digit_char n] else dec_of_nat (n div 10) @ [digit_char (n mod 10)])"
  by pat_completeness auto
termination
  by (relation "measure (\<lambda>n. n)") auto

declare dec_of_nat.simps [simp del]

definition String_long :: "s32 \<Rightarrow> string" where
  "String_long v =
     (if sint v < 0 then CHR ''-'' # dec_of_nat (nat (- sint v)) else dec_of_nat (nat (sint v)))"

definition String_uint :: "u16 \<Rightarrow> string" where
  "String_uint v = dec_of_nat (unat v)"

section \<open>The sketch\<close>

definition keypadValue :: "char \<Rightarrow> int" where
  "keypadValue k =
     (if (of_char CHR ''0'' :: nat) \<le> of_char k \<and> (of_char k :: nat) \<le> of_char CHR ''9''
      then int (of_char k) - int (of_char CHR ''0'')
      else if k = CHR ''#'' then HASH_KEY
      else if k = CHR ''*'' then STAR_KEY
      else INVALID_KEY)"

definition switchLCDBacklightOn :: "state \<Rightarrow> state" where
  "switchLCDBacklightOn s =
     (case millis s of (t, s1) \<Rightarrow> lcd_backlight (s1\<lparr>lcdBacklightTimeoutStartTime := t\<rparr>))"

definition switchLCDBacklightOff :: "state \<Rightarrow> state" where
  "switchLCDBacklightOff s = (lcd_noBacklight s)\<lparr>lcdBacklightTimeoutStartTime := 0\<rparr>"

definition isSuspended :: "state \<Rightarrow> bool" where
  "isSuspended s \<longleftrightarrow> totalSuspendTime s \<noteq> SUSPEND_OFF"

definition isInfiniteSuspension :: "state \<Rightarrow> bool" where
  "isInfiniteSuspension s \<longleftrightarrow> totalSuspendTime s = SUSPEND_INFINITE"

text \<open>\<^verbatim>\<open>(LCD_WIDTH - line.length()) / 2\<close> is computed in \<^verbatim>\<open>unsigned int\<close> and passed to
  \<^verbatim>\<open>setCursor\<close>, whose parameters are bytes.\<close>

definition leftOf :: "string \<Rightarrow> nat" where
  "leftOf line = unat (ucast ((LCD_WIDTH - of_nat (length line)) div 2 :: u16) :: 8 word)"

definition writeLinesOnLCD :: "string \<Rightarrow> string \<Rightarrow> state \<Rightarrow> state" where
  "writeLinesOnLCD line1 line2 s =
     (if line1 \<noteq> oldLine1 s \<or> line2 \<noteq> oldLine2 s then
        let s1 = switchLCDBacklightOn s;
            s2 = s1\<lparr>oldLine1 := line1, oldLine2 := line2\<rparr>;
            s3 = lcd_clear s2;
            s4 = lcd_setCursor (leftOf line1) 0 s3;
            s5 = lcd_print line1 s4;
            s6 = lcd_setCursor (leftOf line2) 1 s5
        in lcd_print line2 s6
      else s)"

definition updateDisplay :: "state \<Rightarrow> state" where
  "updateDisplay s =
     (if isUpdatingSuspendTime s then
        writeLinesOnLCD ''Enter delay:'' (String_long (suspendTimeAccumulator s)) s
      else if isSuspended s then
        (if isInfiniteSuspension s then writeLinesOnLCD ''Alarm'' ''Suspended'' s
         else
           (case millis s of (t, s1) \<Rightarrow>
              let millisRemaining = totalSuspendTime s1 - t + suspendStartTime s1;
                  minsRemaining = (ucast (millisRemaining div MILLIS_PER_MINUTE) :: u16);
                  secsRemaining0 =
                    (ucast ((millisRemaining - ucast minsRemaining * MILLIS_PER_MINUTE)
                              div MILLIS_PER_SECOND) :: u16);
                  secsRemaining = secsRemaining0 mod ucast SECONDS_PER_MINUTE;
                  secsStr0 = String_uint secsRemaining;
                  secsStr = (if length secsStr0 = 1 then ''0'' @ secsStr0 else secsStr0)
              in writeLinesOnLCD ''Alarm paused for''
                   (String_uint minsRemaining @ '':'' @ secsStr) s1))
      else if gateOpen s then writeLinesOnLCD ''** GATE **'' ''** OPEN **'' s
      else writeLinesOnLCD ''OK'' [] s)"

definition hideAlarmLED :: "state \<Rightarrow> state" where
  "hideAlarmLED s = digitalWrite ALARM_LED_PIN False (s\<lparr>alarmLEDPulseStartTime := 0\<rparr>)"

definition showAlarmLED :: "state \<Rightarrow> state" where
  "showAlarmLED s =
     (case millis (digitalWrite ALARM_LED_PIN True s) of
        (t, s1) \<Rightarrow> s1\<lparr>alarmLEDPulseStartTime := t\<rparr>)"

definition silenceAlarm :: "state \<Rightarrow> state" where
  "silenceAlarm s =
     (if alarmSounding s then
        digitalWrite ALARM_BUZZER_PIN False
          (s\<lparr>alarmSounding := False, alarmBuzzerPulseStartTime := 0\<rparr>)
      else s)"

definition activateAlarm :: "state \<Rightarrow> state" where
  "activateAlarm s =
     (if gateOpen s then
        (if \<not> alarmSounding s then
           (case millis (digitalWrite ALARM_BUZZER_PIN True s) of
              (t, s1) \<Rightarrow> s1\<lparr>alarmBuzzerPulseStartTime := t, alarmSounding := True\<rparr>)
         else s)
      else s)"

definition cancelSuspension :: "state \<Rightarrow> state" where
  "cancelSuspension s = s\<lparr>totalSuspendTime := SUSPEND_OFF, suspendStartTime := 0\<rparr>"

definition openGate :: "state \<Rightarrow> state" where
  "openGate s =
     (if \<not> gateOpen s then
        let s1 = showAlarmLED (s\<lparr>gateOpen := True\<rparr>)
        in if \<not> isSuspended s1 then activateAlarm s1 else s1
      else s)"

definition reset :: "state \<Rightarrow> state" where
  "reset s = hideAlarmLED (silenceAlarm (cancelSuspension (s\<lparr>gateOpen := False\<rparr>)))"

definition processKeypadDigit :: "int \<Rightarrow> state \<Rightarrow> state" where
  "processKeypadDigit digit s =
     (if isUpdatingSuspendTime s then
        s\<lparr>suspendTimeAccumulator :=
            suspendTimeAccumulator s * DIGIT_ENTRY_BASE + word_of_int digit\<rparr>
      else s\<lparr>suspendTimeAccumulator := word_of_int digit, isUpdatingSuspendTime := True\<rparr>)"

definition processKeypadHash :: "state \<Rightarrow> state" where
  "processKeypadHash s =
     (let s1 =
        (if isUpdatingSuspendTime s then
           (if suspendTimeAccumulator s \<noteq> 0
            then s\<lparr>totalSuspendTime := suspendTimeAccumulator s * MILLIS_PER_MINUTE\<rparr>
            else s\<lparr>totalSuspendTime := SUSPEND_OFF\<rparr>)
             \<lparr>suspendTimeAccumulator := 0, isUpdatingSuspendTime := False\<rparr>
         else switchLCDBacklightOn (s\<lparr>totalSuspendTime := SUSPEND_INFINITE\<rparr>))
      in
        if isSuspended s1 then
          let s2 = (if alarmSounding s1 then silenceAlarm s1 else s1)
          in if \<not> isInfiniteSuspension s2
             then (case millis s2 of (t, s3) \<Rightarrow> s3\<lparr>suspendStartTime := t\<rparr>)
             else s2\<lparr>suspendStartTime := 0\<rparr>
        else if gateOpen s1 then activateAlarm s1
        else s1)"

definition processKeypadStar :: "state \<Rightarrow> state" where
  "processKeypadStar s = reset s"

subsection \<open>The body of \<^verbatim>\<open>loop()\<close>, one definition for each of its commented blocks\<close>

definition loop_sensor :: "input \<Rightarrow> state \<Rightarrow> state" where
  "loop_sensor e s = (if isPressed e then openGate s else s)"

definition loop_keypad :: "input \<Rightarrow> state \<Rightarrow> state" where
  "loop_keypad e s =
     (let keyPadKey = getKey e in
      if keyPadKey \<noteq> CHR 0x00 then
        let keyVal = keypadValue keyPadKey in
        if 0 \<le> keyVal \<and> keyVal \<le> 9 then processKeypadDigit keyVal s
        else if keyVal = HASH_KEY then processKeypadHash s
        else if keyVal = STAR_KEY then processKeypadStar s
        else s
      else s)"

definition loop_suspension :: "state \<Rightarrow> state" where
  "loop_suspension s =
     (if isSuspended s \<and> \<not> isInfiniteSuspension s then
        (case millis s of (t, s1) \<Rightarrow>
           if t - suspendStartTime s1 > totalSuspendTime s1
           then activateAlarm (cancelSuspension s1)
           else s1)
      else s)"

definition loop_display :: "state \<Rightarrow> state" where
  "loop_display s =
     (case millis s of (t, s1) \<Rightarrow>
        if t - lastDisplayUpdate s1 > DISPLAY_UPDATE_DELTA then
          (case millis (updateDisplay s1) of (t2, s2) \<Rightarrow> s2\<lparr>lastDisplayUpdate := t2\<rparr>)
        else s1)"

definition loop_buzzer :: "state \<Rightarrow> state" where
  "loop_buzzer s =
     (if alarmSounding s then
        (case millis s of (t, s1) \<Rightarrow>
           if t - alarmBuzzerPulseStartTime s1 > ALARM_BUZZER_CYCLE_TIME then
             (case millis s1 of (t2, s2) \<Rightarrow> s2\<lparr>alarmBuzzerPulseStartTime := t2\<rparr>)
           else
             (case millis s1 of (t2, s2) \<Rightarrow>
                if t2 - alarmBuzzerPulseStartTime s2 < ALARM_BUZZER_ON_TIME
                then digitalWrite ALARM_BUZZER_PIN True s2
                else digitalWrite ALARM_BUZZER_PIN False s2))
      else s)"

definition loop_alarmLED :: "state \<Rightarrow> state" where
  "loop_alarmLED s =
     (if gateOpen s then
        (case millis s of (t, s1) \<Rightarrow>
           if t - alarmLEDPulseStartTime s1 > ALARM_LED_CYCLE_TIME then
             (case millis s1 of (t2, s2) \<Rightarrow> s2\<lparr>alarmLEDPulseStartTime := t2\<rparr>)
           else
             (case millis s1 of (t2, s2) \<Rightarrow>
                if t2 - alarmLEDPulseStartTime s2 < ALARM_LED_ON_TIME
                then digitalWrite ALARM_LED_PIN True s2
                else digitalWrite ALARM_LED_PIN False s2))
      else s)"

definition loop_heartbeat :: "state \<Rightarrow> state" where
  "loop_heartbeat s =
     (if \<not> isSuspended s then
        (case millis s of (t, s1) \<Rightarrow>
           if t - heartbeatLEDPulseStartTime s1 > HEARTBEAT_LED_CYCLE_TIME then
             (case millis s1 of (t2, s2) \<Rightarrow> s2\<lparr>heartbeatLEDPulseStartTime := t2\<rparr>)
           else
             (case millis s1 of (t2, s2) \<Rightarrow>
                if t2 - heartbeatLEDPulseStartTime s2 < HEARTBEAT_LED_ON_TIME
                then digitalWrite HEARTBEAT_LED_PIN True s2
                else digitalWrite HEARTBEAT_LED_PIN False s2))
      else digitalWrite HEARTBEAT_LED_PIN True s)"

text \<open>The condition of the last \<^verbatim>\<open>if\<close> of \<^verbatim>\<open>loop()\<close>: \<^verbatim>\<open>&&\<close> evaluates its left operand
  first, so \<^verbatim>\<open>millis()\<close> is read in every pass.\<close>

definition loop_backlight :: "state \<Rightarrow> state" where
  "loop_backlight s =
     (case millis s of (t, s1) \<Rightarrow>
        if t - lcdBacklightTimeoutStartTime s1 \<ge> LCD_BACKLIGHT_TIMEOUT
           \<and> \<not> gateOpen s1
           \<and> (\<not> isSuspended s1 \<or> isInfiniteSuspension s1)
           \<and> \<not> isUpdatingSuspendTime s1
        then switchLCDBacklightOff s1
        else s1)"

text \<open>The state in which the last block (the backlight timeout) starts.\<close>

definition loop_upto_heartbeat :: "input \<Rightarrow> state \<Rightarrow> state" where
  "loop_upto_heartbeat e s =
     loop_heartbeat (loop_alarmLED (loop_buzzer (loop_display
       (loop_suspension (loop_keypad e (loop_sensor e s))))))"

definition loop :: "input \<Rightarrow> state \<Rightarrow> state" where
  "loop e s = loop_backlight (loop_upto_heartbeat e s)"

subsection \<open>Start-up\<close>

text \<open>The initialisers of the global variables (\<^verbatim>\<open>heartbeatLEDPulseStartTime\<close> is
  initialised with a reading of the clock), all outputs low and the display dark.\<close>

definition power_on :: "u32 stream \<Rightarrow> state" where
  "power_on clk =
     \<lparr>alarmSounding = False, gateOpen = False, suspendStartTime = 0,
      totalSuspendTime = SUSPEND_OFF, suspendTimeAccumulator = 0,
      isUpdatingSuspendTime = False, lastDisplayUpdate = 0,
      alarmBuzzerPulseStartTime = 0, alarmLEDPulseStartTime = 0,
      heartbeatLEDPulseStartTime = shd clk, lcdBacklightTimeoutStartTime = 0,
      oldLine1 = [], oldLine2 = [], pins = (\<lambda>_. False), lcdBacklight = False,
      lcdCursor = (0, 0), lcdScreen = [], clock = stl clk\<rparr>"

text \<open>\<^verbatim>\<open>setup()\<close>: the splash screen. \<^verbatim>\<open>delay(2000)\<close> changes no variable: the time it
  takes shows in the later readings of the clock.\<close>

definition setup_board :: "state \<Rightarrow> state" where
  "setup_board s =
     (let s1 = lcd_backlight (lcd_clear s);
          s2 = lcd_print ''** Gate Alarm **'' (lcd_setCursor 0 0 s1);
          s3 = lcd_print ''**   Welcome  **'' (lcd_setCursor 0 1 s2)
      in switchLCDBacklightOn s3)"

section \<open>The tick of the specification: one clock reading\<close>

text \<open>
  The specification describes a tick that reads the clock once and derives every
  timer from that reading. The definitions below follow its words: \<open>now\<close> is the
  one reading, the clock itself is not consulted again, and each of the three
  square-wave outputs is the pulse timer of the specification: with
  \<open>elapsed = now - start\<close>, if \<open>elapsed\<close> exceeds the cycle length the reference is
  rebased to \<open>now\<close> and the output keeps its previous value, otherwise the output is
  on iff \<open>elapsed\<close> is less than the on-duration.
\<close>

definition pulse_at :: "u32 \<Rightarrow> u32 \<Rightarrow> u32 \<Rightarrow> u32 \<Rightarrow> bool \<Rightarrow> u32 \<times> bool" where
  "pulse_at now start on_duration cycle_length previous =
     (let elapsed = now - start in
      if elapsed > cycle_length then (now, previous) else (start, elapsed < on_duration))"

definition switchLCDBacklightOn_at :: "u32 \<Rightarrow> state \<Rightarrow> state" where
  "switchLCDBacklightOn_at now s = s\<lparr>lcdBacklightTimeoutStartTime := now, lcdBacklight := True\<rparr>"

definition activateAlarm_at :: "u32 \<Rightarrow> state \<Rightarrow> state" where
  "activateAlarm_at now s =
     (if gateOpen s \<and> \<not> alarmSounding s
      then s\<lparr>alarmSounding := True, alarmBuzzerPulseStartTime := now,
             pins := (pins s)(ALARM_BUZZER_PIN := True)\<rparr>
      else s)"

definition openGate_at :: "u32 \<Rightarrow> state \<Rightarrow> state" where
  "openGate_at now s =
     (if gateOpen s then s
      else
        let s1 = s\<lparr>gateOpen := True, pins := (pins s)(ALARM_LED_PIN := True),
                   alarmLEDPulseStartTime := now\<rparr>
        in if isSuspended s1 then s1 else activateAlarm_at now s1)"

definition processKeypadHash_at :: "u32 \<Rightarrow> state \<Rightarrow> state" where
  "processKeypadHash_at now s =
     (let s1 =
        (if isUpdatingSuspendTime s then
           s\<lparr>totalSuspendTime :=
                (if suspendTimeAccumulator s \<noteq> 0
                 then suspendTimeAccumulator s * MILLIS_PER_MINUTE else SUSPEND_OFF),
             suspendTimeAccumulator := 0, isUpdatingSuspendTime := False\<rparr>
         else switchLCDBacklightOn_at now (s\<lparr>totalSuspendTime := SUSPEND_INFINITE\<rparr>))
      in
        if isSuspended s1 then
          (silenceAlarm s1)\<lparr>suspendStartTime := (if isInfiniteSuspension s1 then 0 else now)\<rparr>
        else activateAlarm_at now s1)"

definition display_text_at :: "u32 \<Rightarrow> state \<Rightarrow> string \<times> string" where
  "display_text_at now s =
     (if isUpdatingSuspendTime s then (''Enter delay:'', String_long (suspendTimeAccumulator s))
      else if isInfiniteSuspension s then (''Alarm'', ''Suspended'')
      else if isSuspended s then
        (let remaining = totalSuspendTime s - (now - suspendStartTime s);
             mins = (ucast (remaining div MILLIS_PER_MINUTE) :: u16);
             secs = (ucast ((remaining - ucast mins * MILLIS_PER_MINUTE) div MILLIS_PER_SECOND) :: u16)
                      mod 60;
             ss = String_uint secs
         in (''Alarm paused for'',
             String_uint mins @ '':'' @ (if length ss = 1 then ''0'' @ ss else ss)))
      else if gateOpen s then (''** GATE **'', ''** OPEN **'')
      else (''OK'', []))"

definition render_at :: "u32 \<Rightarrow> string \<times> string \<Rightarrow> state \<Rightarrow> state" where
  "render_at now txt s =
     (if txt = (oldLine1 s, oldLine2 s) then s
      else
        (switchLCDBacklightOn_at now s)
          \<lparr>oldLine1 := fst txt, oldLine2 := snd txt,
           lcdScreen := [((leftOf (fst txt), 0), fst txt), ((leftOf (snd txt), 1), snd txt)],
           lcdCursor := (leftOf (snd txt) + length (snd txt), 1)\<rparr>)"

definition events_at :: "u32 \<Rightarrow> input \<Rightarrow> state \<Rightarrow> state" where
  "events_at now e s =
     (let s1 = (if isPressed e then openGate_at now s else s);
          keyVal = keypadValue (getKey e)
      in if getKey e = CHR 0x00 then s1
         else if 0 \<le> keyVal \<and> keyVal \<le> 9 then processKeypadDigit keyVal s1
         else if keyVal = HASH_KEY then processKeypadHash_at now s1
         else if keyVal = STAR_KEY then reset s1
         else s1)"

definition suspension_timeout_at :: "u32 \<Rightarrow> state \<Rightarrow> state" where
  "suspension_timeout_at now s =
     (if isSuspended s \<and> \<not> isInfiniteSuspension s \<and> now - suspendStartTime s > totalSuspendTime s
      then activateAlarm_at now (cancelSuspension s)
      else s)"

definition display_at :: "u32 \<Rightarrow> state \<Rightarrow> state" where
  "display_at now s =
     (if now - lastDisplayUpdate s > DISPLAY_UPDATE_DELTA
      then (render_at now (display_text_at now s) s)\<lparr>lastDisplayUpdate := now\<rparr>
      else s)"

definition timers_at :: "u32 \<Rightarrow> state \<Rightarrow> state" where
  "timers_at now s =
     (let (b_start, b_out) =
            pulse_at now (alarmBuzzerPulseStartTime s) ALARM_BUZZER_ON_TIME
              ALARM_BUZZER_CYCLE_TIME (pins s ALARM_BUZZER_PIN);
          s1 = (if alarmSounding s
                then s\<lparr>alarmBuzzerPulseStartTime := b_start,
                       pins := (pins s)(ALARM_BUZZER_PIN := b_out)\<rparr>
                else s);
          (l_start, l_out) =
            pulse_at now (alarmLEDPulseStartTime s1) ALARM_LED_ON_TIME
              ALARM_LED_CYCLE_TIME (pins s1 ALARM_LED_PIN);
          s2 = (if gateOpen s1
                then s1\<lparr>alarmLEDPulseStartTime := l_start,
                        pins := (pins s1)(ALARM_LED_PIN := l_out)\<rparr>
                else s1);
          (h_start, h_out) =
            pulse_at now (heartbeatLEDPulseStartTime s2) HEARTBEAT_LED_ON_TIME
              HEARTBEAT_LED_CYCLE_TIME (pins s2 HEARTBEAT_LED_PIN)
      in if isSuspended s2
         then s2\<lparr>pins := (pins s2)(HEARTBEAT_LED_PIN := True)\<rparr>
         else s2\<lparr>heartbeatLEDPulseStartTime := h_start,
                 pins := (pins s2)(HEARTBEAT_LED_PIN := h_out)\<rparr>)"

definition backlight_timeout_at :: "u32 \<Rightarrow> state \<Rightarrow> state" where
  "backlight_timeout_at now s =
     (if now - lcdBacklightTimeoutStartTime s \<ge> LCD_BACKLIGHT_TIMEOUT
         \<and> \<not> gateOpen s \<and> (\<not> isSuspended s \<or> isInfiniteSuspension s)
         \<and> \<not> isUpdatingSuspendTime s
      then s\<lparr>lcdBacklight := False, lcdBacklightTimeoutStartTime := 0\<rparr>
      else s)"

definition loop_at :: "u32 \<Rightarrow> input \<Rightarrow> state \<Rightarrow> state" where
  "loop_at now e s =
     backlight_timeout_at now (timers_at now (display_at now
       (suspension_timeout_at now (events_at now e s))))"

subsection \<open>The clock readings that a tick takes\<close>

text \<open>\<open>next_readings n now c\<close>: the next \<open>n\<close> readings of the clock \<open>c\<close> all return
  \<open>now\<close>.\<close>

primrec next_readings :: "nat \<Rightarrow> u32 \<Rightarrow> u32 stream \<Rightarrow> bool" where
  "next_readings 0 now c = True"
| "next_readings (Suc n) now c = (shd c = now \<and> next_readings n now (stl c))"

text \<open>
  The number of calls of \<^verbatim>\<open>millis()\<close> that each function of the sketch makes, on the
  path it takes from the state \<open>s\<close> when the readings return \<open>now\<close>:
  \<^verbatim>\<open>activateAlarm\<close> reads the clock once when it starts the alarm; \<^verbatim>\<open>openGate\<close> once in
  \<^verbatim>\<open>showAlarmLED\<close> and then as \<^verbatim>\<open>activateAlarm\<close> does; \<^verbatim>\<open>processKeypadHash\<close> once in
  \<^verbatim>\<open>switchLCDBacklightOn\<close> outside editing mode, once for the start of a timed
  suspension, and as \<^verbatim>\<open>activateAlarm\<close> does when no suspension results;
  \<^verbatim>\<open>writeLinesOnLCD\<close> once when the text changes; \<^verbatim>\<open>updateDisplay\<close> once more for the
  time left of a timed suspension; the blocks of \<^verbatim>\<open>loop()\<close> once for each comparison
  and once for each time they store.
\<close>

definition readings_activateAlarm :: "state \<Rightarrow> nat" where
  "readings_activateAlarm s = (if gateOpen s \<and> \<not> alarmSounding s then 1 else 0)"

definition readings_openGate :: "state \<Rightarrow> nat" where
  "readings_openGate s =
     (if gateOpen s then 0
      else 1 + (if isSuspended s then 0 else readings_activateAlarm (s\<lparr>gateOpen := True\<rparr>)))"

definition readings_processKeypadHash :: "u32 \<Rightarrow> state \<Rightarrow> nat" where
  "readings_processKeypadHash now s =
     (let total =
        (if isUpdatingSuspendTime s then
           (if suspendTimeAccumulator s \<noteq> 0
            then suspendTimeAccumulator s * MILLIS_PER_MINUTE else SUSPEND_OFF)
         else SUSPEND_INFINITE)
      in (if isUpdatingSuspendTime s then 0 else 1) +
         (if total \<noteq> SUSPEND_OFF then (if total = SUSPEND_INFINITE then 0 else 1)
          else readings_activateAlarm s))"

definition readings_events :: "u32 \<Rightarrow> input \<Rightarrow> state \<Rightarrow> nat" where
  "readings_events now e s =
     (if isPressed e then readings_openGate s else 0) +
     (if keypadValue (getKey e) = HASH_KEY
      then readings_processKeypadHash now (if isPressed e then openGate_at now s else s)
      else 0)"

definition readings_suspension :: "u32 \<Rightarrow> state \<Rightarrow> nat" where
  "readings_suspension now s =
     (if isSuspended s \<and> \<not> isInfiniteSuspension s then
        1 + (if now - suspendStartTime s > totalSuspendTime s
             then readings_activateAlarm s else 0)
      else 0)"

definition readings_writeLinesOnLCD :: "string \<times> string \<Rightarrow> state \<Rightarrow> nat" where
  "readings_writeLinesOnLCD txt s = (if txt \<noteq> (oldLine1 s, oldLine2 s) then 1 else 0)"

definition readings_updateDisplay :: "u32 \<Rightarrow> state \<Rightarrow> nat" where
  "readings_updateDisplay now s =
     (if \<not> isUpdatingSuspendTime s \<and> isSuspended s \<and> \<not> isInfiniteSuspension s
      then 1 else 0) +
     readings_writeLinesOnLCD (display_text_at now s) s"

definition readings_display :: "u32 \<Rightarrow> state \<Rightarrow> nat" where
  "readings_display now s =
     1 + (if now - lastDisplayUpdate s > DISPLAY_UPDATE_DELTA
          then readings_updateDisplay now s + 1 else 0)"

definition readings_timers :: "state \<Rightarrow> nat" where
  "readings_timers s =
     (if alarmSounding s then 2 else 0) + (if gateOpen s then 2 else 0) +
     (if isSuspended s then 0 else 2)"

text \<open>The readings of a whole pass of \<^verbatim>\<open>loop()\<close>; the last one is that of the
  backlight timeout.\<close>

definition readings_at :: "u32 \<Rightarrow> input \<Rightarrow> state \<Rightarrow> nat" where
  "readings_at now e s =
     (let s1 = events_at now e s;
          s2 = suspension_timeout_at now s1;
          s3 = display_at now s2
      in readings_events now e s + readings_suspension now s1 + readings_display now s2
           + readings_timers s3 + 1)"

section \<open>Notions used by the properties\<close>

text \<open>The part of the state that the specification calls AlarmState: gate, alarm,
  suspension and numeric entry.\<close>

definition AlarmState :: "state \<Rightarrow> bool \<times> bool \<times> s32 \<times> u32 \<times> s32 \<times> bool" where
  "AlarmState s =
     (gateOpen s, alarmSounding s, totalSuspendTime s, suspendStartTime s,
      suspendTimeAccumulator s, isUpdatingSuspendTime s)"

text \<open>The same without the numeric entry.\<close>

definition GateAlarmSuspend :: "state \<Rightarrow> bool \<times> bool \<times> s32 \<times> u32" where
  "GateAlarmSuspend s = (gateOpen s, alarmSounding s, totalSuspendTime s, suspendStartTime s)"

text \<open>The alarm sounds only while the gate is open and nothing is suspended.\<close>

definition alarm_masked :: "state \<Rightarrow> bool" where
  "alarm_masked s \<longleftrightarrow> (alarmSounding s \<longrightarrow> gateOpen s \<and> \<not> isSuspended s)"

text \<open>The number that a sequence of digit keys spells in base 10.\<close>

definition digits_value :: "int list \<Rightarrow> int" where
  "digits_value ds = foldl (\<lambda>a d. a * 10 + d) 0 ds"

text \<open>Pressing digit keys one after the other.\<close>

definition pressDigits :: "int list \<Rightarrow> state \<Rightarrow> state" where
  "pressDigits ds s = fold processKeypadDigit ds s"

text \<open>A board that has just been switched on: the clock reads 0 when the globals are
  initialised, 5 when the splash screen is lit and, after the two seconds of
  \<^verbatim>\<open>delay\<close>, one millisecond more at every reading.\<close>

definition boot_clock :: "u32 stream" where
  "boot_clock = 0 ## 5 ## siterate (\<lambda>t. t + 1) 2005"

definition booted :: state where
  "booted = setup_board (power_on boot_clock)"

text \<open>The gate has been opened on a fresh board and the keys 1 and hash have been
  pressed: a timed suspension of one minute that started at the reading 2007.\<close>

definition timed_one_minute :: state where
  "timed_one_minute = processKeypadHash (processKeypadDigit 1 (openGate booted))"

text \<open>A pass of the loop in which the switch is not pressed and no key is read.\<close>

definition idle :: input where
  "idle = \<lparr>isPressed = False, getKey = CHR 0x00\<rparr>"


text \<open>The condition under which the last block of the loop switches the backlight
  off, for the state \<open>s\<close> in which that block starts: the reading \<open>now\<close> is the next
  one of the clock.\<close>

definition backlight_due :: "state \<Rightarrow> bool" where
  "backlight_due s \<longleftrightarrow>
     (let now = shd (clock s) in
      now - lcdBacklightTimeoutStartTime s \<ge> LCD_BACKLIGHT_TIMEOUT
      \<and> \<not> gateOpen s
      \<and> (\<not> isSuspended s \<or> isInfiniteSuspension s)
      \<and> \<not> isUpdatingSuspendTime s)"

text \<open>What the buzzer timer reads and writes: the alarm flag, the reference time of
  the pulse and the buzzer output.\<close>

definition BuzzerState :: "state \<Rightarrow> bool \<times> u32 \<times> bool" where
  "BuzzerState s = (alarmSounding s, alarmBuzzerPulseStartTime s, pins s ALARM_BUZZER_PIN)"

text \<open>The state in which the buzzer block of the loop starts, and the two readings
  of the clock that the block takes there.\<close>

definition loop_upto_display :: "input \<Rightarrow> state \<Rightarrow> state" where
  "loop_upto_display e s = loop_display (loop_suspension (loop_keypad e (loop_sensor e s)))"

definition buzzer_first_reading :: "input \<Rightarrow> state \<Rightarrow> u32" where
  "buzzer_first_reading e s = shd (clock (loop_upto_display e s))"

definition buzzer_second_reading :: "input \<Rightarrow> state \<Rightarrow> u32" where
  "buzzer_second_reading e s = shd (stl (clock (loop_upto_display e s)))"

text \<open>The alarm has started on a fresh board (at the reading 2006); the clock now
  reads \<open>t\<close> and gains one millisecond at every reading.\<close>

definition alarm_started :: "u32 \<Rightarrow> state" where
  "alarm_started t = (openGate booted)\<lparr>clock := siterate (\<lambda>t. t + 1) t\<rparr>"

text \<open>A clock that returns 2005 twelve times and gains one millisecond at every
  reading after that.\<close>

definition held_clock :: "u32 stream" where
  "held_clock = replicate 12 2005 @- siterate (\<lambda>t. t + 1) 2006"

section \<open>Evaluation and frame lemmas\<close>

named_theorems macro_defs \<open>the values of the sketch's macros\<close>

lemmas [macro_defs] =
  MILLIS_PER_SECOND_def SECONDS_PER_MINUTE_def MILLIS_PER_MINUTE_def LCD_WIDTH_def
  ALARM_LED_PIN_def ALARM_BUZZER_PIN_def HEARTBEAT_LED_PIN_def
  SUSPEND_OFF_def SUSPEND_INFINITE_def DIGIT_ENTRY_BASE_def
  HASH_KEY_def STAR_KEY_def INVALID_KEY_def DISPLAY_UPDATE_DELTA_def
  ALARM_BUZZER_ON_TIME_def ALARM_BUZZER_OFF_TIME_def ALARM_BUZZER_CYCLE_TIME_def
  ALARM_LED_ON_TIME_def ALARM_LED_OFF_TIME_def ALARM_LED_CYCLE_TIME_def
  HEARTBEAT_LED_ON_TIME_def HEARTBEAT_LED_OFF_TIME_def HEARTBEAT_LED_CYCLE_TIME_def
  LCD_BACKLIGHT_TIMEOUT_def

lemmas dev_defs = millis_def digitalWrite_def lcd_backlight_def lcd_noBacklight_def lcd_clear_def
  lcd_setCursor_def lcd_print_def

lemmas sketch_defs = keypadValue_def switchLCDBacklightOn_def switchLCDBacklightOff_def
  isSuspended_def isInfiniteSuspension_def leftOf_def writeLinesOnLCD_def updateDisplay_def
  hideAlarmLED_def showAlarmLED_def silenceAlarm_def activateAlarm_def cancelSuspension_def
  openGate_def reset_def processKeypadDigit_def processKeypadHash_def processKeypadStar_def
  loop_sensor_def loop_keypad_def loop_suspension_def loop_display_def loop_buzzer_def
  loop_alarmLED_def loop_heartbeat_def loop_backlight_def loop_upto_heartbeat_def loop_def
  String_long_def String_uint_def digit_char_def dec_of_nat.simps

lemma booted_eq:
  "booted =
     \<lparr>alarmSounding = False, gateOpen = False, suspendStartTime = 0,
      totalSuspendTime = 0, suspendTimeAccumulator = 0,
      isUpdatingSuspendTime = False, lastDisplayUpdate = 0,
      alarmBuzzerPulseStartTime = 0, alarmLEDPulseStartTime = 0,
      heartbeatLEDPulseStartTime = 0, lcdBacklightTimeoutStartTime = 5,
      oldLine1 = [], oldLine2 = [], pins = (\<lambda>_. False), lcdBacklight = True,
      lcdCursor = (16, 1),
      lcdScreen = [((0, 0), ''** Gate Alarm **''), ((0, 1), ''**   Welcome  **'')],
      clock = siterate (\<lambda>t. t + 1) 2005\<rparr>"
  by (simp add: booted_def boot_clock_def setup_board_def power_on_def switchLCDBacklightOn_def
        dev_defs macro_defs)

lemma AlarmState_clock [simp]: "AlarmState (s\<lparr>clock := c\<rparr>) = AlarmState s"
  by (simp add: AlarmState_def)

lemma AlarmState_switchLCDBacklightOn [simp]:
  "AlarmState (switchLCDBacklightOn s) = AlarmState s"
  by (simp add: AlarmState_def switchLCDBacklightOn_def dev_defs)

lemma AlarmState_writeLinesOnLCD [simp]: "AlarmState (writeLinesOnLCD a b s) = AlarmState s"
proof -
  have "AlarmState (writeLinesOnLCD a b s) =
          (if a \<noteq> oldLine1 s \<or> b \<noteq> oldLine2 s
           then AlarmState (switchLCDBacklightOn s) else AlarmState s)"
    by (simp add: writeLinesOnLCD_def Let_def AlarmState_def dev_defs)
  then show ?thesis by simp
qed

lemma AlarmState_updateDisplay [simp]: "AlarmState (updateDisplay s) = AlarmState s"
  by (simp add: updateDisplay_def millis_def Let_def)

lemma AlarmState_loop_display [simp]: "AlarmState (loop_display s) = AlarmState s"
proof -
  have "AlarmState (s'\<lparr>lastDisplayUpdate := x\<rparr>) = AlarmState s'" for s' x
    by (simp add: AlarmState_def)
  then show ?thesis
    by (simp add: loop_display_def millis_def)
qed

lemma AlarmState_loop_buzzer [simp]: "AlarmState (loop_buzzer s) = AlarmState s"
  by (simp add: loop_buzzer_def AlarmState_def dev_defs)

lemma AlarmState_loop_alarmLED [simp]: "AlarmState (loop_alarmLED s) = AlarmState s"
  by (simp add: loop_alarmLED_def AlarmState_def dev_defs)

lemma AlarmState_loop_heartbeat [simp]: "AlarmState (loop_heartbeat s) = AlarmState s"
  by (simp add: loop_heartbeat_def AlarmState_def dev_defs)

lemma AlarmState_loop_backlight [simp]: "AlarmState (loop_backlight s) = AlarmState s"
  by (simp add: loop_backlight_def switchLCDBacklightOff_def AlarmState_def dev_defs)

text \<open>Gate, alarm, suspension and numeric entry are settled by the first three blocks
  of the loop: the display and the timers never write them.\<close>

lemma AlarmState_loop:
  "AlarmState (loop e s) = AlarmState (loop_suspension (loop_keypad e (loop_sensor e s)))"
  by (simp add: loop_def loop_upto_heartbeat_def)

lemma GateAlarmSuspend_AlarmState:
  "AlarmState s = AlarmState s' \<Longrightarrow> GateAlarmSuspend s = GateAlarmSuspend s'"
  by (simp add: AlarmState_def GateAlarmSuspend_def)

section \<open>The star key\<close>

text \<open>
  C1 (as amended). The star key (\<^verbatim>\<open>processKeypadStar\<close>, which calls \<^verbatim>\<open>reset\<close>) leaves,
  from every state, the gate closed, the suspension off with no start time, the
  alarm silent and the alarm LED dark. It does not touch the numeric entry: the
  editing flag and the accumulator keep their values.
\<close>

theorem star_key_clears_gate_alarm_suspension:
  "\<not> gateOpen (processKeypadStar s) \<and>
   totalSuspendTime (processKeypadStar s) = SUSPEND_OFF \<and>
   suspendStartTime (processKeypadStar s) = 0 \<and>
   \<not> isSuspended (processKeypadStar s) \<and>
   \<not> alarmSounding (processKeypadStar s) \<and>
   \<not> pins (processKeypadStar s) ALARM_LED_PIN \<and>
   isUpdatingSuspendTime (processKeypadStar s) = isUpdatingSuspendTime s \<and>
   suspendTimeAccumulator (processKeypadStar s) = suspendTimeAccumulator s"
  by (simp add: processKeypadStar_def reset_def hideAlarmLED_def silenceAlarm_def
        cancelSuspension_def isSuspended_def digitalWrite_def)

text \<open>
  C1 as stated fails: on a board that has just been switched on, the key 5 is
  pressed in one pass of the loop and the star key is processed next. The entry is
  still being edited and the accumulator still holds 5.
\<close>

theorem star_key_mid_edit_keeps_entry:
  "isUpdatingSuspendTime
     (processKeypadStar (loop \<lparr>isPressed = False, getKey = CHR ''5''\<rparr> booted)) \<and>
   suspendTimeAccumulator
     (processKeypadStar (loop \<lparr>isPressed = False, getKey = CHR ''5''\<rparr> booted)) = 5"
  by (simp add: booted_eq sketch_defs dev_defs macro_defs Let_def)

section \<open>Digit keys\<close>

lemma loop_suspension_digit:
  "loop_suspension (processKeypadDigit d s) = processKeypadDigit d (loop_suspension s)"
  by (simp add: loop_suspension_def processKeypadDigit_def isSuspended_def
        isInfiniteSuspension_def activateAlarm_def cancelSuspension_def dev_defs)

lemma GateAlarmSuspend_digit [simp]:
  "GateAlarmSuspend (processKeypadDigit d s) = GateAlarmSuspend s"
  by (simp add: GateAlarmSuspend_def processKeypadDigit_def)

text \<open>
  C10. Processing a digit key writes the accumulator and the editing flag and
  nothing else: the gate flag, the alarm flag, the suspend time and its start are
  unchanged. A pass of the loop in which a digit key is read therefore ends with the
  same gate, alarm and suspension as the same pass with no key: a running timed
  suspension is checked against the clock, and expires, as if nothing were typed.
\<close>

theorem digit_key_frame:
  "processKeypadDigit d s =
     s\<lparr>suspendTimeAccumulator := suspendTimeAccumulator (processKeypadDigit d s),
       isUpdatingSuspendTime := True\<rparr> \<and>
   gateOpen (processKeypadDigit d s) = gateOpen s \<and>
   alarmSounding (processKeypadDigit d s) = alarmSounding s \<and>
   totalSuspendTime (processKeypadDigit d s) = totalSuspendTime s \<and>
   suspendStartTime (processKeypadDigit d s) = suspendStartTime s \<and>
   (0 \<le> keypadValue k \<and> keypadValue k \<le> 9 \<longrightarrow>
      GateAlarmSuspend (loop \<lparr>isPressed = p, getKey = k\<rparr> s) =
      GateAlarmSuspend (loop \<lparr>isPressed = p, getKey = CHR 0x00\<rparr> s))"
proof -
  have "GateAlarmSuspend (loop \<lparr>isPressed = p, getKey = k\<rparr> s) =
        GateAlarmSuspend (loop \<lparr>isPressed = p, getKey = CHR 0x00\<rparr> s)"
    if k: "0 \<le> keypadValue k" "keypadValue k \<le> 9"
  proof -
    have nz: "k \<noteq> CHR 0x00"
      using k by (auto simp: keypadValue_def macro_defs)
    let ?s1 = "loop_sensor \<lparr>isPressed = p, getKey = CHR 0x00\<rparr> s"
    have s1: "loop_sensor \<lparr>isPressed = p, getKey = k\<rparr> s = ?s1"
      by (simp add: loop_sensor_def)
    have "GateAlarmSuspend (loop \<lparr>isPressed = p, getKey = k\<rparr> s) =
          GateAlarmSuspend (loop_suspension (processKeypadDigit (keypadValue k) ?s1))"
      using k nz by (simp add: GateAlarmSuspend_AlarmState [OF AlarmState_loop] s1 loop_keypad_def)
    also have "\<dots> = GateAlarmSuspend (loop_suspension ?s1)"
      by (simp add: loop_suspension_digit)
    also have "\<dots> = GateAlarmSuspend (loop \<lparr>isPressed = p, getKey = CHR 0x00\<rparr> s)"
      by (simp add: GateAlarmSuspend_AlarmState [OF AlarmState_loop] loop_keypad_def)
    finally show ?thesis .
  qed
  then show ?thesis
    by (simp add: processKeypadDigit_def)
qed

text \<open>The key 7 in the pass in which the gate is first seen open: the alarm starts
  all the same.\<close>

theorem digit_key_frame_witness:
  "0 \<le> keypadValue CHR ''7'' \<and> keypadValue CHR ''7'' \<le> 9 \<and>
   GateAlarmSuspend (loop \<lparr>isPressed = True, getKey = CHR ''7''\<rparr> booted) =
   GateAlarmSuspend (loop \<lparr>isPressed = True, getKey = CHR 0x00\<rparr> booted) \<and>
   GateAlarmSuspend (loop \<lparr>isPressed = True, getKey = CHR ''7''\<rparr> booted) = (True, True, 0, 0)"
  using digit_key_frame [of 7 booted "CHR ''7''" True]
  by (simp add: booted_eq sketch_defs dev_defs macro_defs Let_def GateAlarmSuspend_def)

section \<open>The hash key\<close>

text \<open>
  C8. The hash key outside editing mode enters the infinite suspension, whatever
  the suspension was before: the suspend time is \<^verbatim>\<open>SUSPEND_INFINITE\<close>, the start
  time is cleared, the alarm is silent, the backlight is on and its timeout is
  counted from the clock reading taken by the key handler.
\<close>

theorem hash_without_digits_is_infinite:
  assumes "\<not> isUpdatingSuspendTime s"
  shows "totalSuspendTime (processKeypadHash s) = SUSPEND_INFINITE \<and>
         isInfiniteSuspension (processKeypadHash s) \<and>
         suspendStartTime (processKeypadHash s) = 0 \<and>
         \<not> alarmSounding (processKeypadHash s) \<and>
         lcdBacklight (processKeypadHash s) \<and>
         lcdBacklightTimeoutStartTime (processKeypadHash s) = shd (clock s) \<and>
         \<not> isUpdatingSuspendTime (processKeypadHash s)"
  using assms
  by (simp add: processKeypadHash_def switchLCDBacklightOn_def silenceAlarm_def isSuspended_def
        isInfiniteSuspension_def dev_defs macro_defs Let_def)

theorem hash_without_digits_is_infinite_witness:
  "\<not> isUpdatingSuspendTime booted \<and>
   totalSuspendTime (processKeypadHash booted) = - 1 \<and>
   lcdBacklight (processKeypadHash booted) \<and>
   lcdBacklightTimeoutStartTime (processKeypadHash booted) = 2005"
  using hash_without_digits_is_infinite [of booted]
  by (simp add: booted_eq macro_defs)

text \<open>
  C7. The keys 0 and hash, starting outside editing mode, leave the suspension off
  (the suspend time is \<^verbatim>\<open>SUSPEND_OFF\<close>, not a timed suspension of length 0), end
  editing mode with the accumulator at 0 and, when the gate is open, leave the
  alarm sounding at the end of the handling of the hash key.
\<close>

theorem zero_then_hash_cancels_suspension:
  assumes "\<not> isUpdatingSuspendTime s"
  shows "totalSuspendTime (processKeypadHash (processKeypadDigit 0 s)) = SUSPEND_OFF \<and>
         \<not> isSuspended (processKeypadHash (processKeypadDigit 0 s)) \<and>
         \<not> isUpdatingSuspendTime (processKeypadHash (processKeypadDigit 0 s)) \<and>
         suspendTimeAccumulator (processKeypadHash (processKeypadDigit 0 s)) = 0 \<and>
         (gateOpen s \<longrightarrow> alarmSounding (processKeypadHash (processKeypadDigit 0 s)))"
  using assms
  by (simp add: processKeypadHash_def processKeypadDigit_def activateAlarm_def isSuspended_def
        isInfiniteSuspension_def dev_defs macro_defs Let_def)

text \<open>Gate opened, alarm suspended for good with the hash key, then 0 and hash: the
  alarm sounds again.\<close>

theorem zero_then_hash_cancels_suspension_witness:
  "\<not> isUpdatingSuspendTime (processKeypadHash (openGate booted)) \<and>
   gateOpen (processKeypadHash (openGate booted)) \<and>
   \<not> alarmSounding (processKeypadHash (openGate booted)) \<and>
   totalSuspendTime (processKeypadHash (openGate booted)) = SUSPEND_INFINITE \<and>
   totalSuspendTime
     (processKeypadHash (processKeypadDigit 0 (processKeypadHash (openGate booted)))) =
     SUSPEND_OFF \<and>
   alarmSounding
     (processKeypadHash (processKeypadDigit 0 (processKeypadHash (openGate booted))))"
  using zero_then_hash_cancels_suspension [of "processKeypadHash (openGate booted)"]
  by (simp add: booted_eq sketch_defs dev_defs macro_defs Let_def)

section \<open>The alarm sounds only while the gate is open and nothing is suspended\<close>

lemma alarm_masked_AlarmState:
  "AlarmState s = AlarmState s' \<Longrightarrow> alarm_masked s = alarm_masked s'"
  by (simp add: AlarmState_def alarm_masked_def isSuspended_def)

lemma alarm_masked_openGate: "alarm_masked s \<Longrightarrow> alarm_masked (openGate s)"
  by (simp add: alarm_masked_def openGate_def showAlarmLED_def activateAlarm_def isSuspended_def
        dev_defs Let_def)

lemma alarm_masked_digit: "alarm_masked s \<Longrightarrow> alarm_masked (processKeypadDigit d s)"
  by (simp add: alarm_masked_def processKeypadDigit_def isSuspended_def)

lemma alarm_masked_hash: "alarm_masked s \<Longrightarrow> alarm_masked (processKeypadHash s)"
  by (simp add: alarm_masked_def processKeypadHash_def switchLCDBacklightOn_def silenceAlarm_def
        activateAlarm_def isSuspended_def isInfiniteSuspension_def dev_defs macro_defs Let_def)

lemma alarm_masked_star: "alarm_masked (processKeypadStar s)"
  by (simp add: alarm_masked_def processKeypadStar_def reset_def hideAlarmLED_def silenceAlarm_def
        cancelSuspension_def isSuspended_def dev_defs)

lemma alarm_masked_loop_sensor: "alarm_masked s \<Longrightarrow> alarm_masked (loop_sensor e s)"
  by (simp add: loop_sensor_def alarm_masked_openGate)

lemma alarm_masked_loop_keypad: "alarm_masked s \<Longrightarrow> alarm_masked (loop_keypad e s)"
  by (simp add: loop_keypad_def Let_def alarm_masked_digit alarm_masked_hash alarm_masked_star)

lemma alarm_masked_loop_suspension: "alarm_masked s \<Longrightarrow> alarm_masked (loop_suspension s)"
  by (simp add: alarm_masked_def loop_suspension_def activateAlarm_def cancelSuspension_def
        isSuspended_def isInfiniteSuspension_def dev_defs macro_defs)

lemma alarm_masked_loop: "alarm_masked s \<Longrightarrow> alarm_masked (loop e s)"
  using alarm_masked_AlarmState [OF AlarmState_loop, of e s]
  by (simp add: alarm_masked_loop_sensor alarm_masked_loop_keypad alarm_masked_loop_suspension)

lemma alarm_masked_start: "alarm_masked (setup_board (power_on clk))"
  by (simp add: alarm_masked_def setup_board_def power_on_def switchLCDBacklightOn_def dev_defs)

text \<open>
  C4. If the alarm flag implies that the gate flag is set and no suspension is
  active, it still does after the sensor event (\<^verbatim>\<open>openGate\<close>), after each keypad
  operation (digit, hash, star) and after a whole pass of the loop, whatever the
  switch, the key and the clock readings are. The property holds when the board
  starts (lemma \<open>alarm_masked_start\<close>).
\<close>

theorem alarm_only_when_open_and_unsuspended:
  assumes "alarm_masked s"
  shows "alarm_masked (openGate s) \<and>
         alarm_masked (processKeypadDigit d s) \<and>
         alarm_masked (processKeypadHash s) \<and>
         alarm_masked (processKeypadStar s) \<and>
         alarm_masked (loop e s)"
  using assms
  by (simp add: alarm_masked_openGate alarm_masked_digit alarm_masked_hash alarm_masked_star
        alarm_masked_loop)

text \<open>The gate opens and the hash key is read in the same pass: the alarm that
  \<^verbatim>\<open>openGate\<close> started is silenced by the infinite suspension.\<close>

theorem alarm_only_when_open_and_unsuspended_witness:
  "alarm_masked booted \<and>
   alarm_masked (loop \<lparr>isPressed = True, getKey = CHR ''#''\<rparr> booted) \<and>
   gateOpen (loop \<lparr>isPressed = True, getKey = CHR ''#''\<rparr> booted) \<and>
   isSuspended (loop \<lparr>isPressed = True, getKey = CHR ''#''\<rparr> booted) \<and>
   \<not> alarmSounding (loop \<lparr>isPressed = True, getKey = CHR ''#''\<rparr> booted)"
  using alarm_only_when_open_and_unsuspended [of booted 0 "\<lparr>isPressed = True, getKey = CHR ''#''\<rparr>"]
  by (simp add: booted_eq sketch_defs dev_defs macro_defs Let_def alarm_masked_def)

section \<open>Expiry of a timed suspension\<close>

lemma loop_sensor_open: "gateOpen s \<Longrightarrow> loop_sensor e s = s"
  by (simp add: loop_sensor_def openGate_def)

lemma GateAlarmSuspend_loop_plain:
  assumes "getKey e \<noteq> CHR ''#''" "getKey e \<noteq> CHR ''*''"
  shows "GateAlarmSuspend (loop e s) = GateAlarmSuspend (loop_suspension (loop_sensor e s))"
proof -
  have "loop_keypad e s' = s' \<or> (\<exists>d. loop_keypad e s' = processKeypadDigit d s')" for s'
    using assms by (auto simp: loop_keypad_def Let_def keypadValue_def macro_defs)
  then have "GateAlarmSuspend (loop_suspension (loop_keypad e s')) =
             GateAlarmSuspend (loop_suspension s')" for s'
    using loop_suspension_digit GateAlarmSuspend_digit by metis
  then show ?thesis
    by (simp add: GateAlarmSuspend_AlarmState [OF AlarmState_loop])
qed

text \<open>
  C5. The gate is open, a timed suspension of duration \<open>d = totalSuspendTime s\<close> that
  started at \<open>t = suspendStartTime s\<close> is active, the alarm is silent (as the invariant
  of C4 requires under a suspension), and the pass of the loop reads neither the
  hash nor the star key. Let \<open>now\<close> be the clock reading of the timeout check, the
  first of the pass. If \<open>now - t \<le> d\<close> the suspension is unchanged and the alarm is
  silent after the pass; if \<open>now - t > d\<close> the suspension is cancelled and the alarm
  sounds. In particular the alarm is silent at \<open>t + d - 1\<close> and sounds at \<open>t + d + 1\<close>.
  Subtraction and comparison are those of \<^verbatim>\<open>unsigned long\<close>.
\<close>

theorem timed_suspension_expiry:
  assumes "gateOpen s" "isSuspended s" "\<not> isInfiniteSuspension s" "\<not> alarmSounding s"
    and "getKey e \<noteq> CHR ''#''" "getKey e \<noteq> CHR ''*''"
  shows "(shd (clock s) - suspendStartTime s \<le> totalSuspendTime s \<longrightarrow>
            totalSuspendTime (loop e s) = totalSuspendTime s \<and>
            suspendStartTime (loop e s) = suspendStartTime s \<and>
            \<not> alarmSounding (loop e s)) \<and>
         (shd (clock s) - suspendStartTime s > totalSuspendTime s \<longrightarrow>
            \<not> isSuspended (loop e s) \<and> alarmSounding (loop e s)) \<and>
         (shd (clock s) = suspendStartTime s + totalSuspendTime s - 1 \<longrightarrow>
            isSuspended (loop e s) \<and> \<not> alarmSounding (loop e s)) \<and>
         (shd (clock s) = suspendStartTime s + totalSuspendTime s + 1 \<longrightarrow>
            \<not> isSuspended (loop e s) \<and> alarmSounding (loop e s))"
proof -
  let ?d = "totalSuspendTime s"
  have d: "?d \<noteq> 0" "?d \<noteq> - 1"
    using assms by (simp_all add: isSuspended_def isInfiniteSuspension_def macro_defs)
  have before: "?d - 1 \<le> ?d"
    using d(1) less_eq_dec_self_iff_eq [of ?d] by simp
  have after: "?d < ?d + 1"
    using d(2) inc_less_eq_self_iff_eq [of ?d] by simp
  have loop: "GateAlarmSuspend (loop e s) = GateAlarmSuspend (loop_suspension s)"
    using assms by (simp add: GateAlarmSuspend_loop_plain loop_sensor_open)
  have late: "\<not> isSuspended (loop e s) \<and> alarmSounding (loop e s)"
    if "shd (clock s) - suspendStartTime s > ?d"
    using loop that assms
    by (simp add: GateAlarmSuspend_def loop_suspension_def activateAlarm_def cancelSuspension_def
          isSuspended_def dev_defs)
  have early: "totalSuspendTime (loop e s) = ?d \<and>
            suspendStartTime (loop e s) = suspendStartTime s \<and>
            \<not> alarmSounding (loop e s) \<and> isSuspended (loop e s)"
    if "shd (clock s) - suspendStartTime s \<le> ?d"
    using loop leD [OF that] assms
    by (simp add: GateAlarmSuspend_def loop_suspension_def isSuspended_def dev_defs)
  show ?thesis
    using early late before after by auto
qed

text \<open>One minute from the reading 2007: still suspended at 62006 and at 62007, the
  alarm sounds at 62008.\<close>

theorem timed_suspension_expiry_witness:
  "gateOpen timed_one_minute \<and> isSuspended timed_one_minute \<and>
   \<not> isInfiniteSuspension timed_one_minute \<and> \<not> alarmSounding timed_one_minute \<and>
   totalSuspendTime timed_one_minute = 60000 \<and> suspendStartTime timed_one_minute = 2007 \<and>
   isSuspended (loop idle (timed_one_minute\<lparr>clock := siterate (\<lambda>t. t + 1) 62006\<rparr>)) \<and>
   \<not> alarmSounding (loop idle (timed_one_minute\<lparr>clock := siterate (\<lambda>t. t + 1) 62006\<rparr>)) \<and>
   isSuspended (loop idle (timed_one_minute\<lparr>clock := siterate (\<lambda>t. t + 1) 62007\<rparr>)) \<and>
   \<not> alarmSounding (loop idle (timed_one_minute\<lparr>clock := siterate (\<lambda>t. t + 1) 62007\<rparr>)) \<and>
   \<not> isSuspended (loop idle (timed_one_minute\<lparr>clock := siterate (\<lambda>t. t + 1) 62008\<rparr>)) \<and>
   alarmSounding (loop idle (timed_one_minute\<lparr>clock := siterate (\<lambda>t. t + 1) 62008\<rparr>))"
  using timed_suspension_expiry [of "timed_one_minute\<lparr>clock := siterate (\<lambda>t. t + 1) 62006\<rparr>" idle]
    timed_suspension_expiry [of "timed_one_minute\<lparr>clock := siterate (\<lambda>t. t + 1) 62007\<rparr>" idle]
    timed_suspension_expiry [of "timed_one_minute\<lparr>clock := siterate (\<lambda>t. t + 1) 62008\<rparr>" idle]
  by (simp add: timed_one_minute_def idle_def booted_eq openGate_def showAlarmLED_def
        activateAlarm_def processKeypadDigit_def processKeypadHash_def silenceAlarm_def
        isSuspended_def isInfiniteSuspension_def dev_defs macro_defs Let_def)

section \<open>Entering a suspend time\<close>

lemma pressDigits_editing:
  "pressDigits ds (s\<lparr>suspendTimeAccumulator := word_of_int a, isUpdatingSuspendTime := True\<rparr>) =
   s\<lparr>suspendTimeAccumulator := word_of_int (foldl (\<lambda>a d. a * 10 + d) a ds),
     isUpdatingSuspendTime := True\<rparr>"
proof (induction ds arbitrary: a)
  case Nil
  then show ?case by (simp add: pressDigits_def)
next
  case (Cons d ds)
  have "processKeypadDigit d
          (s\<lparr>suspendTimeAccumulator := word_of_int a, isUpdatingSuspendTime := True\<rparr>) =
        s\<lparr>suspendTimeAccumulator := word_of_int (a * 10 + d), isUpdatingSuspendTime := True\<rparr>"
    by (simp add: processKeypadDigit_def macro_defs)
  with Cons.IH [of "a * 10 + d"] show ?case
    by (simp add: pressDigits_def)
qed

lemma pressDigits_fresh:
  assumes "\<not> isUpdatingSuspendTime s" "ds \<noteq> []"
  shows "pressDigits ds s =
         s\<lparr>suspendTimeAccumulator := word_of_int (digits_value ds), isUpdatingSuspendTime := True\<rparr>"
proof -
  obtain d ds' where ds: "ds = d # ds'"
    using assms(2) by (cases ds) auto
  have "processKeypadDigit d s =
        s\<lparr>suspendTimeAccumulator := word_of_int d, isUpdatingSuspendTime := True\<rparr>"
    using assms(1) by (simp add: processKeypadDigit_def)
  then have "pressDigits ds s =
        pressDigits ds' (s\<lparr>suspendTimeAccumulator := word_of_int d, isUpdatingSuspendTime := True\<rparr>)"
    by (simp add: ds pressDigits_def)
  then show ?thesis
    by (simp add: pressDigits_editing digits_value_def ds)
qed

lemma uint_minus_one_32: "uint (- 1 :: 32 word) = 4294967295"
proof -
  have "(- 1 :: 32 word) = 4294967295" by simp
  moreover have "uint (4294967295 :: 32 word) = 4294967295" by simp
  ultimately show ?thesis by (simp only:)
qed

lemma minutes_word:
  fixes n :: int
  assumes "0 < n" "n * 60000 < 2 ^ 32"
  shows "(word_of_int n :: 32 word) \<noteq> 0"
    and "uint (word_of_int n * 60000 :: 32 word) = n * 60000"
    and "(word_of_int n * 60000 :: 32 word) \<noteq> 0"
    and "(word_of_int n * 60000 :: 32 word) \<noteq> - 1"
proof -
  have inv: "uint (word_of_int k :: 32 word) = k" if "0 \<le> k" "k < 2 ^ 32" for k
    using that by (simp add: uint_word_of_int_eq take_bit_int_eq_self)
  have nonneg: "0 \<le> n * 60000"
    using assms(1) by simp
  have w: "(word_of_int n * 60000 :: 32 word) = word_of_int (n * 60000)"
    by simp
  show u: "uint (word_of_int n * 60000 :: 32 word) = n * 60000"
    unfolding w by (rule inv [OF nonneg assms(2)])
  show nz: "(word_of_int n * 60000 :: 32 word) \<noteq> 0"
  proof
    assume "(word_of_int n * 60000 :: 32 word) = 0"
    with u have "n * 60000 = 0" by simp
    with assms(1) show False by simp
  qed
  then show "(word_of_int n :: 32 word) \<noteq> 0"
    by auto
  show "(word_of_int n * 60000 :: 32 word) \<noteq> - 1"
  proof
    assume "(word_of_int n * 60000 :: 32 word) = - 1"
    with u have "n * 60000 = uint (- 1 :: 32 word)" by simp
    then have "n * 60000 = 4294967295" by (simp only: uint_minus_one_32)
    moreover have "even (n * 60000)" by simp
    moreover have "odd (4294967295 :: int)" by simp
    ultimately show False by (simp only:)
  qed
qed


text \<open>
  C6 (as amended). Digit keys pressed from outside editing mode start the entry and
  accumulate the number they spell in base 10 (\<open>digits_value\<close>; each later digit
  makes the accumulator ten times itself plus the digit). When that number \<open>n\<close> is
  positive and \<open>n\<close> minutes fit the 32-bit millisecond counter
  (\<open>n * 60000 < 2 ^ 32\<close>, that is \<open>n \<le> 71582\<close>), the hash key that follows enters a
  timed suspension of exactly \<open>n * 60000\<close> milliseconds that starts at the clock
  reading taken by the key handler, leaves the alarm silent, ends editing mode and
  resets the accumulator to 0.
\<close>

theorem digits_then_hash_timed:
  assumes "\<not> isUpdatingSuspendTime s" "ds \<noteq> []"
    and "0 < digits_value ds" "digits_value ds * 60000 < 2 ^ 32"
  shows "isUpdatingSuspendTime (pressDigits ds s) \<and>
         suspendTimeAccumulator (pressDigits ds s) = word_of_int (digits_value ds) \<and>
         uint (totalSuspendTime (processKeypadHash (pressDigits ds s))) =
           digits_value ds * uint MILLIS_PER_MINUTE \<and>
         isSuspended (processKeypadHash (pressDigits ds s)) \<and>
         \<not> isInfiniteSuspension (processKeypadHash (pressDigits ds s)) \<and>
         suspendStartTime (processKeypadHash (pressDigits ds s)) = shd (clock s) \<and>
         \<not> alarmSounding (processKeypadHash (pressDigits ds s)) \<and>
         \<not> isUpdatingSuspendTime (processKeypadHash (pressDigits ds s)) \<and>
         suspendTimeAccumulator (processKeypadHash (pressDigits ds s)) = 0"
  using minutes_word [OF assms(3,4)]
  by (simp add: pressDigits_fresh [OF assms(1,2)] processKeypadHash_def silenceAlarm_def
        isSuspended_def isInfiniteSuspension_def dev_defs macro_defs Let_def)

text \<open>The keys 1, 2 and hash while the alarm sounds: 12 minutes from the reading
  2007.\<close>

theorem digits_then_hash_timed_witness:
  "\<not> isUpdatingSuspendTime (openGate booted) \<and> alarmSounding (openGate booted) \<and>
   digits_value [1, 2] = 12 \<and>
   suspendTimeAccumulator (pressDigits [1, 2] (openGate booted)) = 12 \<and>
   totalSuspendTime (processKeypadHash (pressDigits [1, 2] (openGate booted))) = 720000 \<and>
   suspendStartTime (processKeypadHash (pressDigits [1, 2] (openGate booted))) = 2007 \<and>
   \<not> alarmSounding (processKeypadHash (pressDigits [1, 2] (openGate booted)))"
  using digits_then_hash_timed [of "openGate booted" "[1, 2]"]
  by (simp add: digits_value_def pressDigits_def booted_eq sketch_defs dev_defs macro_defs Let_def)

text \<open>
  C6 as stated fails for larger entries: the product of the accumulator and
  \<^verbatim>\<open>MILLIS_PER_MINUTE\<close> is computed in \<^verbatim>\<open>unsigned long\<close> and wraps. The nine keys
  134217728 (a value that fits a \<^verbatim>\<open>long\<close>) followed by hash give the suspend time 0,
  which is \<^verbatim>\<open>SUSPEND_OFF\<close>: no suspension is entered and the alarm keeps sounding.
\<close>

theorem digits_then_hash_overflow:
  "digits_value [1, 3, 4, 2, 1, 7, 7, 2, 8] = 134217728 \<and>
   alarmSounding (openGate booted) \<and>
   suspendTimeAccumulator (pressDigits [1, 3, 4, 2, 1, 7, 7, 2, 8] (openGate booted)) = 134217728 \<and>
   totalSuspendTime (processKeypadHash (pressDigits [1, 3, 4, 2, 1, 7, 7, 2, 8] (openGate booted)))
     = SUSPEND_OFF \<and>
   \<not> isSuspended (processKeypadHash (pressDigits [1, 3, 4, 2, 1, 7, 7, 2, 8] (openGate booted))) \<and>
   alarmSounding (processKeypadHash (pressDigits [1, 3, 4, 2, 1, 7, 7, 2, 8] (openGate booted)))"
  by (simp add: digits_value_def pressDigits_def booted_eq sketch_defs dev_defs macro_defs Let_def)

section \<open>A pass of the loop whose clock readings all agree\<close>

lemma next_readings_add:
  "next_readings (m + n) now c \<longleftrightarrow> next_readings m now c \<and> next_readings n now (sdrop m c)"
  by (induction m arbitrary: c) auto

lemma readings_activateAlarm_clock [simp]:
  "readings_activateAlarm (s\<lparr>clock := c\<rparr>) = readings_activateAlarm s"
  by (simp add: readings_activateAlarm_def)

lemma activateAlarm_at_clock:
  "activateAlarm_at now (s\<lparr>clock := c\<rparr>) = (activateAlarm_at now s)\<lparr>clock := c\<rparr>"
  by (simp add: activateAlarm_at_def)

lemma activateAlarm_readings:
  "next_readings (readings_activateAlarm s) now (clock s) \<Longrightarrow>
   activateAlarm s =
   (activateAlarm_at now s)\<lparr>clock := sdrop (readings_activateAlarm s) (clock s)\<rparr>"
  by (cases "gateOpen s \<and> \<not> alarmSounding s")
     (simp_all add: activateAlarm_def activateAlarm_at_def readings_activateAlarm_def millis_def
        digitalWrite_def)

lemma sdrop_clock_0 [simp]: "s\<lparr>clock := sdrop 0 (clock s)\<rparr> = s"
  by simp

lemma openGate_at_clock:
  "openGate_at now (s\<lparr>clock := c\<rparr>) = (openGate_at now s)\<lparr>clock := c\<rparr>"
  by (simp add: openGate_at_def activateAlarm_at_def isSuspended_def Let_def)

lemma openGate_readings:
  "next_readings (readings_openGate s) now (clock s) \<Longrightarrow>
   openGate s = (openGate_at now s)\<lparr>clock := sdrop (readings_openGate s) (clock s)\<rparr>"
  by (cases "gateOpen s"; cases "isSuspended s"; cases "alarmSounding s")
     (simp_all add: openGate_def openGate_at_def showAlarmLED_def readings_openGate_def
        isSuspended_def Let_def activateAlarm_def activateAlarm_at_def
        readings_activateAlarm_def millis_def digitalWrite_def)

lemma readings_processKeypadHash_clock [simp]:
  "readings_processKeypadHash now (s\<lparr>clock := c\<rparr>) = readings_processKeypadHash now s"
  by (simp add: readings_processKeypadHash_def Let_def)

lemma processKeypadHash_at_clock:
  "processKeypadHash_at now (s\<lparr>clock := c\<rparr>) = (processKeypadHash_at now s)\<lparr>clock := c\<rparr>"
  by (simp add: processKeypadHash_at_def activateAlarm_at_def switchLCDBacklightOn_at_def
        silenceAlarm_def digitalWrite_def isSuspended_def isInfiniteSuspension_def Let_def)

lemma processKeypadHash_readings:
  "next_readings (readings_processKeypadHash now s) now (clock s) \<Longrightarrow>
   processKeypadHash s =
   (processKeypadHash_at now s)\<lparr>clock := sdrop (readings_processKeypadHash now s) (clock s)\<rparr>"
  by (cases "isUpdatingSuspendTime s"; cases "suspendTimeAccumulator s = 0";
      cases "suspendTimeAccumulator s * 60000 = 0"; cases "suspendTimeAccumulator s * 60000 = - 1";
      cases "gateOpen s"; cases "alarmSounding s")
     (simp_all add: processKeypadHash_def processKeypadHash_at_def readings_processKeypadHash_def
        switchLCDBacklightOn_def switchLCDBacklightOn_at_def lcd_backlight_def silenceAlarm_def
        isSuspended_def isInfiniteSuspension_def Let_def
        activateAlarm_def activateAlarm_at_def readings_activateAlarm_def millis_def
        digitalWrite_def macro_defs)

lemma processKeypadDigit_clock:
  "processKeypadDigit d (s\<lparr>clock := c\<rparr>) = (processKeypadDigit d s)\<lparr>clock := c\<rparr>"
  by (simp add: processKeypadDigit_def)

lemma reset_clock: "reset (s\<lparr>clock := c\<rparr>) = (reset s)\<lparr>clock := c\<rparr>"
  by (simp add: reset_def hideAlarmLED_def silenceAlarm_def cancelSuspension_def digitalWrite_def)

lemma events_readings:
  assumes "next_readings (readings_events now e s) now (clock s)"
  shows "loop_keypad e (loop_sensor e s) =
         (events_at now e s)\<lparr>clock := sdrop (readings_events now e s) (clock s)\<rparr>"
proof -
  define n1 where "n1 = (if isPressed e then readings_openGate s else 0)"
  define s1 where "s1 = (if isPressed e then openGate_at now s else s)"
  define n2 where "n2 = (if keypadValue (getKey e) = HASH_KEY
                         then readings_processKeypadHash now s1 else 0)"
  have n: "readings_events now e s = n1 + n2"
    by (simp add: readings_events_def n1_def n2_def s1_def)
  have r1: "next_readings n1 now (clock s)" and r2: "next_readings n2 now (sdrop n1 (clock s))"
    using assms by (simp_all add: n next_readings_add)
  let ?x = "s1\<lparr>clock := sdrop n1 (clock s)\<rparr>"
  have sensor: "loop_sensor e s = ?x"
    using r1 by (cases "isPressed e") (simp_all add: loop_sensor_def n1_def s1_def openGate_readings)
  have "loop_keypad e ?x =
        (let keyVal = keypadValue (getKey e)
         in if getKey e = CHR 0x00 then s1
            else if 0 \<le> keyVal \<and> keyVal \<le> 9 then processKeypadDigit keyVal s1
            else if keyVal = HASH_KEY then processKeypadHash_at now s1
            else if keyVal = STAR_KEY then reset s1
            else s1)\<lparr>clock := sdrop (n1 + n2) (clock s)\<rparr>"
  proof (cases "keypadValue (getKey e) = HASH_KEY")
    case True
    then have key: "getKey e \<noteq> CHR 0x00" "\<not> (0 \<le> keypadValue (getKey e) \<and> keypadValue (getKey e) \<le> 9)"
      by (auto simp add: keypadValue_def macro_defs split: if_splits)
    have "next_readings (readings_processKeypadHash now ?x) now (clock ?x)"
      using r2 True by (simp add: n2_def)
    from processKeypadHash_readings [OF this] show ?thesis
      using True key
      by (simp add: loop_keypad_def Let_def n2_def processKeypadHash_at_clock sdrop_add
            HASH_KEY_def)
  next
    case False
    then show ?thesis
      by (simp add: loop_keypad_def Let_def n2_def processKeypadDigit_clock reset_clock
            processKeypadStar_def)
  qed
  then show ?thesis
    by (simp add: sensor n events_at_def s1_def Let_def)
qed

lemma suspension_timeout_at_clock:
  "suspension_timeout_at now (s\<lparr>clock := c\<rparr>) = (suspension_timeout_at now s)\<lparr>clock := c\<rparr>"
  by (simp add: suspension_timeout_at_def activateAlarm_at_def cancelSuspension_def
        isSuspended_def isInfiniteSuspension_def)

lemma readings_suspension_clock [simp]:
  "readings_suspension now (s\<lparr>clock := c\<rparr>) = readings_suspension now s"
  by (simp add: readings_suspension_def isSuspended_def isInfiniteSuspension_def
        readings_activateAlarm_def)

lemma suspension_readings:
  assumes "next_readings (readings_suspension now s) now (clock s)"
  shows "loop_suspension s =
   (suspension_timeout_at now s)\<lparr>clock := sdrop (readings_suspension now s) (clock s)\<rparr>"
proof (cases "isSuspended s"; cases "isInfiniteSuspension s")
  assume a: "isSuspended s" "\<not> isInfiniteSuspension s"
  then have now: "shd (clock s) = now"
    using assms by (simp add: readings_suspension_def)
  show ?thesis
  proof (cases "totalSuspendTime s < now - suspendStartTime s")
    case False
    with a now show ?thesis
      by (simp add: loop_suspension_def suspension_timeout_at_def readings_suspension_def
            millis_def)
  next
    case late: True
    let ?x = "cancelSuspension (s\<lparr>clock := stl (clock s)\<rparr>)"
    have "next_readings (readings_activateAlarm ?x) now (clock ?x)"
      using assms a late
      by (simp add: readings_suspension_def readings_activateAlarm_def cancelSuspension_def)
    from activateAlarm_readings [OF this] a late now show ?thesis
      by (simp add: loop_suspension_def suspension_timeout_at_def readings_suspension_def
            millis_def readings_activateAlarm_def cancelSuspension_def activateAlarm_at_def)
  qed
qed (simp_all add: loop_suspension_def suspension_timeout_at_def readings_suspension_def)

lemma render_at_clock:
  "render_at now txt (s\<lparr>clock := c\<rparr>) = (render_at now txt s)\<lparr>clock := c\<rparr>"
  by (simp add: render_at_def switchLCDBacklightOn_at_def)

lemma writeLinesOnLCD_readings:
  assumes "next_readings (readings_writeLinesOnLCD (a, b) s) now (clock s)"
  shows "writeLinesOnLCD a b s =
         (render_at now (a, b) s)\<lparr>clock := sdrop (readings_writeLinesOnLCD (a, b) s) (clock s)\<rparr>"
proof (cases "(a, b) = (oldLine1 s, oldLine2 s)")
  case True
  then show ?thesis
    by (simp add: writeLinesOnLCD_def render_at_def readings_writeLinesOnLCD_def)
next
  case False
  then have "shd (clock s) = now"
    using assms by (simp add: readings_writeLinesOnLCD_def)
  with False show ?thesis
    by (auto simp add: writeLinesOnLCD_def render_at_def readings_writeLinesOnLCD_def
          switchLCDBacklightOn_def switchLCDBacklightOn_at_def millis_def lcd_backlight_def
          lcd_clear_def lcd_setCursor_def lcd_print_def Let_def)
qed

lemma remaining_eq: "a - b + c = a - (b - c)" for a b c :: u32
  by simp

lemma readings_writeLinesOnLCD_clock [simp]:
  "readings_writeLinesOnLCD txt (s\<lparr>clock := c\<rparr>) = readings_writeLinesOnLCD txt s"
  by (simp add: readings_writeLinesOnLCD_def)

lemma updateDisplay_readings:
  assumes "next_readings (readings_updateDisplay now s) now (clock s)"
  shows "updateDisplay s =
         (render_at now (display_text_at now s) s)
           \<lparr>clock := sdrop (readings_updateDisplay now s) (clock s)\<rparr>"
proof -
  define T where "T = display_text_at now s"
  define n where "n = readings_writeLinesOnLCD T s"
  show ?thesis
  proof (cases "isUpdatingSuspendTime s"; cases "isSuspended s"; cases "isInfiniteSuspension s")
    assume fin: "\<not> isUpdatingSuspendTime s" "isSuspended s" "\<not> isInfiniteSuspension s"
    then have r: "readings_updateDisplay now s = Suc n"
      by (simp add: readings_updateDisplay_def n_def T_def)
    then have now: "shd (clock s) = now" and rest: "next_readings n now (stl (clock s))"
      using assms by simp_all
    let ?s1 = "s\<lparr>clock := stl (clock s)\<rparr>"
    have "updateDisplay s = writeLinesOnLCD (fst T) (snd T) ?s1"
      using fin now
      by (simp add: updateDisplay_def display_text_at_def T_def millis_def Let_def remaining_eq
            macro_defs)
    also have "\<dots> = (render_at now T ?s1)\<lparr>clock := sdrop n (clock ?s1)\<rparr>"
      using writeLinesOnLCD_readings [of "fst T" "snd T" ?s1 now] rest
      by (simp add: n_def)
    finally show ?thesis
      by (simp add: r render_at_clock T_def)
  next
    assume a: "isUpdatingSuspendTime s" "isSuspended s" "isInfiniteSuspension s"
    then have r: "readings_updateDisplay now s = n"
      by (simp add: readings_updateDisplay_def n_def T_def)
    have "updateDisplay s = writeLinesOnLCD (fst T) (snd T) s"
      using a by (simp add: updateDisplay_def display_text_at_def T_def)
    then show ?thesis
      using writeLinesOnLCD_readings [of "fst T" "snd T" s now] assms
      by (simp add: r n_def T_def)
  next
    assume a: "isUpdatingSuspendTime s" "isSuspended s" "\<not> isInfiniteSuspension s"
    then have r: "readings_updateDisplay now s = n"
      by (simp add: readings_updateDisplay_def n_def T_def)
    have "updateDisplay s = writeLinesOnLCD (fst T) (snd T) s"
      using a by (simp add: updateDisplay_def display_text_at_def T_def)
    then show ?thesis
      using writeLinesOnLCD_readings [of "fst T" "snd T" s now] assms
      by (simp add: r n_def T_def)
  next
    assume a: "isUpdatingSuspendTime s" "\<not> isSuspended s" "isInfiniteSuspension s"
    then have r: "readings_updateDisplay now s = n"
      by (simp add: readings_updateDisplay_def n_def T_def)
    have "updateDisplay s = writeLinesOnLCD (fst T) (snd T) s"
      using a by (simp add: updateDisplay_def display_text_at_def T_def)
    then show ?thesis
      using writeLinesOnLCD_readings [of "fst T" "snd T" s now] assms
      by (simp add: r n_def T_def)
  next
    assume a: "isUpdatingSuspendTime s" "\<not> isSuspended s" "\<not> isInfiniteSuspension s"
    then have r: "readings_updateDisplay now s = n"
      by (simp add: readings_updateDisplay_def n_def T_def)
    have "updateDisplay s = writeLinesOnLCD (fst T) (snd T) s"
      using a by (simp add: updateDisplay_def display_text_at_def T_def)
    then show ?thesis
      using writeLinesOnLCD_readings [of "fst T" "snd T" s now] assms
      by (simp add: r n_def T_def)
  next
    assume a: "\<not> isUpdatingSuspendTime s" "isSuspended s" "isInfiniteSuspension s"
    then have r: "readings_updateDisplay now s = n"
      by (simp add: readings_updateDisplay_def n_def T_def)
    have "updateDisplay s = writeLinesOnLCD (fst T) (snd T) s"
      using a by (simp add: updateDisplay_def display_text_at_def T_def)
    then show ?thesis
      using writeLinesOnLCD_readings [of "fst T" "snd T" s now] assms
      by (simp add: r n_def T_def)
  next
    assume a: "\<not> isUpdatingSuspendTime s" "\<not> isSuspended s" "isInfiniteSuspension s"
    then show ?thesis
      by (simp add: isSuspended_def isInfiniteSuspension_def macro_defs)
  next
    assume a: "\<not> isUpdatingSuspendTime s" "\<not> isSuspended s" "\<not> isInfiniteSuspension s"
    then have r: "readings_updateDisplay now s = n"
      by (simp add: readings_updateDisplay_def n_def T_def)
    have "updateDisplay s = writeLinesOnLCD (fst T) (snd T) s"
      using a by (simp add: updateDisplay_def display_text_at_def T_def)
    then show ?thesis
      using writeLinesOnLCD_readings [of "fst T" "snd T" s now] assms
      by (simp add: r n_def T_def)
  qed
qed

lemma next_readings_snoc:
  "next_readings (Suc n) now c \<longleftrightarrow> next_readings n now c \<and> shd (sdrop n c) = now"
  by (induction n arbitrary: c) auto

lemma display_readings:
  assumes "next_readings (readings_display now s) now (clock s)"
  shows "loop_display s =
         (display_at now s)\<lparr>clock := sdrop (readings_display now s) (clock s)\<rparr>"
proof -
  have now: "shd (clock s) = now"
    using assms by (simp add: readings_display_def)
  let ?s1 = "s\<lparr>clock := stl (clock s)\<rparr>"
  show ?thesis
  proof (cases "now - lastDisplayUpdate s > DISPLAY_UPDATE_DELTA")
    case False
    with now show ?thesis
      by (simp add: loop_display_def display_at_def readings_display_def millis_def)
  next
    case True
    define n where "n = readings_updateDisplay now s"
    have r: "readings_display now s = Suc (Suc n)"
      using True by (simp add: readings_display_def n_def)
    have "next_readings (Suc (Suc n)) now (clock s)"
      using assms by (simp only: r)
    then have "next_readings (Suc n) now (stl (clock s))"
      by (simp only: next_readings.simps)
    then have upd: "next_readings n now (stl (clock s))"
      and last: "shd (sdrop n (stl (clock s))) = now"
      by (simp_all only: next_readings_snoc)
    have "readings_updateDisplay now ?s1 = n"
      by (simp add: n_def readings_updateDisplay_def readings_writeLinesOnLCD_def
            display_text_at_def isSuspended_def isInfiniteSuspension_def)
    with upd have "next_readings (readings_updateDisplay now ?s1) now (clock ?s1)"
      by simp
    from updateDisplay_readings [OF this]
    have u: "updateDisplay ?s1 =
             (render_at now (display_text_at now s) s)\<lparr>clock := sdrop n (stl (clock s))\<rparr>"
      using \<open>readings_updateDisplay now ?s1 = n\<close>
      by (simp add: render_at_clock display_text_at_def isSuspended_def isInfiniteSuspension_def)
    show ?thesis
      using True now last
      by (simp add: loop_display_def display_at_def millis_def u r)
  qed
qed

lemma buzzer_readings:
  "next_readings (if alarmSounding s then 2 else 0) now c \<Longrightarrow>
   loop_buzzer (s\<lparr>clock := c\<rparr>) =
     (if alarmSounding s
      then s\<lparr>alarmBuzzerPulseStartTime :=
               fst (pulse_at now (alarmBuzzerPulseStartTime s) ALARM_BUZZER_ON_TIME
                      ALARM_BUZZER_CYCLE_TIME (pins s ALARM_BUZZER_PIN)),
             pins := (pins s)(ALARM_BUZZER_PIN :=
               snd (pulse_at now (alarmBuzzerPulseStartTime s) ALARM_BUZZER_ON_TIME
                      ALARM_BUZZER_CYCLE_TIME (pins s ALARM_BUZZER_PIN)))\<rparr>
      else s)\<lparr>clock := sdrop (if alarmSounding s then 2 else 0) c\<rparr>"
  by (cases "alarmSounding s";
      cases "ALARM_BUZZER_CYCLE_TIME < now - alarmBuzzerPulseStartTime s";
      cases "now - alarmBuzzerPulseStartTime s < ALARM_BUZZER_ON_TIME")
     (simp_all add: loop_buzzer_def pulse_at_def millis_def digitalWrite_def numeral_2_eq_2)

lemma alarmLED_readings:
  "next_readings (if gateOpen s then 2 else 0) now c \<Longrightarrow>
   loop_alarmLED (s\<lparr>clock := c\<rparr>) =
     (if gateOpen s
      then s\<lparr>alarmLEDPulseStartTime :=
               fst (pulse_at now (alarmLEDPulseStartTime s) ALARM_LED_ON_TIME
                      ALARM_LED_CYCLE_TIME (pins s ALARM_LED_PIN)),
             pins := (pins s)(ALARM_LED_PIN :=
               snd (pulse_at now (alarmLEDPulseStartTime s) ALARM_LED_ON_TIME
                      ALARM_LED_CYCLE_TIME (pins s ALARM_LED_PIN)))\<rparr>
      else s)\<lparr>clock := sdrop (if gateOpen s then 2 else 0) c\<rparr>"
  by (cases "gateOpen s";
      cases "ALARM_LED_CYCLE_TIME < now - alarmLEDPulseStartTime s";
      cases "now - alarmLEDPulseStartTime s < ALARM_LED_ON_TIME")
     (simp_all add: loop_alarmLED_def pulse_at_def millis_def digitalWrite_def numeral_2_eq_2)

lemma heartbeat_readings:
  "next_readings (if isSuspended s then 0 else 2) now c \<Longrightarrow>
   loop_heartbeat (s\<lparr>clock := c\<rparr>) =
     (if isSuspended s then s\<lparr>pins := (pins s)(HEARTBEAT_LED_PIN := True)\<rparr>
      else s\<lparr>heartbeatLEDPulseStartTime :=
               fst (pulse_at now (heartbeatLEDPulseStartTime s) HEARTBEAT_LED_ON_TIME
                      HEARTBEAT_LED_CYCLE_TIME (pins s HEARTBEAT_LED_PIN)),
             pins := (pins s)(HEARTBEAT_LED_PIN :=
               snd (pulse_at now (heartbeatLEDPulseStartTime s) HEARTBEAT_LED_ON_TIME
                      HEARTBEAT_LED_CYCLE_TIME (pins s HEARTBEAT_LED_PIN)))\<rparr>)
       \<lparr>clock := sdrop (if isSuspended s then 0 else 2) c\<rparr>"
  by (cases "isSuspended s";
      cases "HEARTBEAT_LED_CYCLE_TIME < now - heartbeatLEDPulseStartTime s";
      cases "now - heartbeatLEDPulseStartTime s < HEARTBEAT_LED_ON_TIME")
     (simp_all add: loop_heartbeat_def pulse_at_def millis_def digitalWrite_def numeral_2_eq_2
        isSuspended_def)

lemma timers_readings:
  assumes "next_readings (readings_timers s) now (clock s)"
  shows "loop_heartbeat (loop_alarmLED (loop_buzzer s)) =
         (timers_at now s)\<lparr>clock := sdrop (readings_timers s) (clock s)\<rparr>"
proof -
  define n1 :: nat where "n1 = (if alarmSounding s then 2 else 0)"
  define n2 :: nat where "n2 = (if gateOpen s then 2 else 0)"
  define n3 :: nat where "n3 = (if isSuspended s then 0 else 2)"
  define b where "b =
     (if alarmSounding s
      then s\<lparr>alarmBuzzerPulseStartTime :=
               fst (pulse_at now (alarmBuzzerPulseStartTime s) ALARM_BUZZER_ON_TIME
                      ALARM_BUZZER_CYCLE_TIME (pins s ALARM_BUZZER_PIN)),
             pins := (pins s)(ALARM_BUZZER_PIN :=
               snd (pulse_at now (alarmBuzzerPulseStartTime s) ALARM_BUZZER_ON_TIME
                      ALARM_BUZZER_CYCLE_TIME (pins s ALARM_BUZZER_PIN)))\<rparr>
      else s)"
  define l where "l =
     (if gateOpen b
      then b\<lparr>alarmLEDPulseStartTime :=
               fst (pulse_at now (alarmLEDPulseStartTime b) ALARM_LED_ON_TIME
                      ALARM_LED_CYCLE_TIME (pins b ALARM_LED_PIN)),
             pins := (pins b)(ALARM_LED_PIN :=
               snd (pulse_at now (alarmLEDPulseStartTime b) ALARM_LED_ON_TIME
                      ALARM_LED_CYCLE_TIME (pins b ALARM_LED_PIN)))\<rparr>
      else b)"
  define h where "h =
     (if isSuspended l then l\<lparr>pins := (pins l)(HEARTBEAT_LED_PIN := True)\<rparr>
      else l\<lparr>heartbeatLEDPulseStartTime :=
               fst (pulse_at now (heartbeatLEDPulseStartTime l) HEARTBEAT_LED_ON_TIME
                      HEARTBEAT_LED_CYCLE_TIME (pins l HEARTBEAT_LED_PIN)),
             pins := (pins l)(HEARTBEAT_LED_PIN :=
               snd (pulse_at now (heartbeatLEDPulseStartTime l) HEARTBEAT_LED_ON_TIME
                      HEARTBEAT_LED_CYCLE_TIME (pins l HEARTBEAT_LED_PIN)))\<rparr>)"
  have gb: "gateOpen b = gateOpen s" and sl: "isSuspended l = isSuspended s"
    by (simp_all add: b_def l_def isSuspended_def)
  have n: "readings_timers s = n1 + n2 + n3"
    by (simp add: readings_timers_def n1_def n2_def n3_def)
  have r1: "next_readings n1 now (clock s)"
    and r2: "next_readings n2 now (sdrop n1 (clock s))"
    and r3: "next_readings n3 now (sdrop (n1 + n2) (clock s))"
    using assms by (simp_all add: n next_readings_add)
  have "loop_buzzer s = b\<lparr>clock := sdrop n1 (clock s)\<rparr>"
    using buzzer_readings [of s now "clock s"] r1 by (simp add: n1_def b_def)
  moreover have "loop_alarmLED (b\<lparr>clock := sdrop n1 (clock s)\<rparr>) =
                 l\<lparr>clock := sdrop (n1 + n2) (clock s)\<rparr>"
    using alarmLED_readings [of b now "sdrop n1 (clock s)"] r2
    by (simp add: n2_def l_def gb sdrop_add)
  moreover have "loop_heartbeat (l\<lparr>clock := sdrop (n1 + n2) (clock s)\<rparr>) =
                 h\<lparr>clock := sdrop (n1 + n2 + n3) (clock s)\<rparr>"
    using heartbeat_readings [of l now "sdrop (n1 + n2) (clock s)"] r3
    by (simp add: n3_def h_def sl sdrop_add)
  moreover have "h = timers_at now s"
    by (simp add: h_def l_def b_def timers_at_def Let_def split_beta isSuspended_def
          ALARM_LED_PIN_def ALARM_BUZZER_PIN_def HEARTBEAT_LED_PIN_def)
  ultimately show ?thesis
    by (simp add: n)
qed

lemma backlight_readings:
  assumes "shd (clock s) = now"
  shows "loop_backlight s = (backlight_timeout_at now s)\<lparr>clock := stl (clock s)\<rparr>"
  using assms
  by (cases "totalSuspendTime s = SUSPEND_OFF"; cases "totalSuspendTime s = SUSPEND_INFINITE")
     (simp_all add: loop_backlight_def backlight_timeout_at_def switchLCDBacklightOff_def
        lcd_noBacklight_def millis_def isSuspended_def isInfiniteSuspension_def)

lemma display_text_at_clock [simp]:
  "display_text_at now (s\<lparr>clock := c\<rparr>) = display_text_at now s"
  by (simp add: display_text_at_def isSuspended_def isInfiniteSuspension_def)

lemma readings_display_clock [simp]:
  "readings_display now (s\<lparr>clock := c\<rparr>) = readings_display now s"
  by (simp add: readings_display_def readings_updateDisplay_def isSuspended_def
        isInfiniteSuspension_def)

lemma display_at_clock:
  "display_at now (s\<lparr>clock := c\<rparr>) = (display_at now s)\<lparr>clock := c\<rparr>"
  by (simp add: display_at_def render_at_clock)

lemma readings_timers_clock [simp]:
  "readings_timers (s\<lparr>clock := c\<rparr>) = readings_timers s"
  by (simp add: readings_timers_def isSuspended_def)

lemma timers_at_clock:
  "timers_at now (s\<lparr>clock := c\<rparr>) = (timers_at now s)\<lparr>clock := c\<rparr>"
  by (simp add: timers_at_def Let_def split_beta isSuspended_def)

lemma backlight_timeout_at_clock:
  "backlight_timeout_at now (s\<lparr>clock := c\<rparr>) = (backlight_timeout_at now s)\<lparr>clock := c\<rparr>"
  by (auto simp add: backlight_timeout_at_def isSuspended_def isInfiniteSuspension_def)

lemma loop_readings:
  assumes "next_readings (readings_at now e s) now (clock s)"
  shows "loop e s = (loop_at now e s)\<lparr>clock := sdrop (readings_at now e s) (clock s)\<rparr>"
proof -
  define s1 where "s1 = events_at now e s"
  define s2 where "s2 = suspension_timeout_at now s1"
  define s3 where "s3 = display_at now s2"
  define s4 where "s4 = timers_at now s3"
  define n1 where "n1 = readings_events now e s"
  define n2 where "n2 = readings_suspension now s1"
  define n3 where "n3 = readings_display now s2"
  define n4 where "n4 = readings_timers s3"
  let ?c = "clock s"
  have n: "readings_at now e s = Suc (n1 + n2 + n3 + n4)"
    by (simp add: readings_at_def Let_def s1_def s2_def s3_def n1_def n2_def n3_def n4_def)
  have "next_readings (Suc (n1 + n2 + n3 + n4)) now ?c"
    using assms by (simp only: n)
  then have all: "next_readings (n1 + n2 + n3 + n4) now ?c"
    and r5: "shd (sdrop (n1 + n2 + n3 + n4) ?c) = now"
    by (simp_all only: next_readings_snoc)
  from all have r1: "next_readings n1 now ?c"
    and r2: "next_readings n2 now (sdrop n1 ?c)"
    and r3: "next_readings n3 now (sdrop (n1 + n2) ?c)"
    and r4: "next_readings n4 now (sdrop (n1 + n2 + n3) ?c)"
    by (simp_all add: next_readings_add)
  have e1: "loop_keypad e (loop_sensor e s) = s1\<lparr>clock := sdrop n1 ?c\<rparr>"
    using events_readings [of now e s] r1 by (simp add: n1_def s1_def)
  have e2: "loop_suspension (s1\<lparr>clock := sdrop n1 ?c\<rparr>) = s2\<lparr>clock := sdrop (n1 + n2) ?c\<rparr>"
    using suspension_readings [of now "s1\<lparr>clock := sdrop n1 ?c\<rparr>"] r2
    by (simp add: n2_def s2_def suspension_timeout_at_clock sdrop_add)
  have e3: "loop_display (s2\<lparr>clock := sdrop (n1 + n2) ?c\<rparr>) =
            s3\<lparr>clock := sdrop (n1 + n2 + n3) ?c\<rparr>"
    using display_readings [of now "s2\<lparr>clock := sdrop (n1 + n2) ?c\<rparr>"] r3
    by (simp add: n3_def s3_def display_at_clock sdrop_add)
  have e4: "loop_heartbeat (loop_alarmLED (loop_buzzer (s3\<lparr>clock := sdrop (n1 + n2 + n3) ?c\<rparr>))) =
            s4\<lparr>clock := sdrop (n1 + n2 + n3 + n4) ?c\<rparr>"
    using timers_readings [of "s3\<lparr>clock := sdrop (n1 + n2 + n3) ?c\<rparr>" now] r4
    by (simp add: n4_def s4_def timers_at_clock sdrop_add)
  have e5: "loop_backlight (s4\<lparr>clock := sdrop (n1 + n2 + n3 + n4) ?c\<rparr>) =
            (backlight_timeout_at now s4)\<lparr>clock := sdrop (Suc (n1 + n2 + n3 + n4)) ?c\<rparr>"
    using backlight_readings [of "s4\<lparr>clock := sdrop (n1 + n2 + n3 + n4) ?c\<rparr>" now] r5
    by (simp add: backlight_timeout_at_clock)
  have "loop e s =
        (backlight_timeout_at now s4)\<lparr>clock := sdrop (Suc (n1 + n2 + n3 + n4)) ?c\<rparr>"
    by (simp only: loop_def loop_upto_heartbeat_def e1 e2 e3 e4 e5)
  moreover have "backlight_timeout_at now s4 = loop_at now e s"
    by (simp only: loop_at_def s4_def s3_def s2_def s1_def)
  ultimately show ?thesis
    by (simp only: n)
qed

text \<open>The tick of the specification never consults the clock.\<close>

lemma clock_render_at [simp]: "clock (render_at now txt s) = clock s"
  by (simp add: render_at_def switchLCDBacklightOn_at_def)

lemma clock_activateAlarm_at [simp]: "clock (activateAlarm_at now s) = clock s"
  by (simp add: activateAlarm_at_def)

lemma clock_openGate_at [simp]: "clock (openGate_at now s) = clock s"
  by (simp add: openGate_at_def Let_def)

lemma clock_processKeypadHash_at [simp]: "clock (processKeypadHash_at now s) = clock s"
  by (simp add: processKeypadHash_at_def Let_def switchLCDBacklightOn_at_def silenceAlarm_def
        digitalWrite_def)

lemma clock_reset [simp]: "clock (reset s) = clock s"
  by (simp add: reset_def hideAlarmLED_def silenceAlarm_def cancelSuspension_def digitalWrite_def)

lemma clock_processKeypadDigit [simp]: "clock (processKeypadDigit d s) = clock s"
  by (simp add: processKeypadDigit_def)

lemma clock_events_at [simp]: "clock (events_at now e s) = clock s"
  by (simp add: events_at_def Let_def)

lemma clock_suspension_timeout_at [simp]: "clock (suspension_timeout_at now s) = clock s"
  by (simp add: suspension_timeout_at_def cancelSuspension_def)

lemma clock_display_at [simp]: "clock (display_at now s) = clock s"
  by (simp add: display_at_def)

lemma clock_timers_at [simp]: "clock (timers_at now s) = clock s"
  by (simp add: timers_at_def Let_def split_beta)

lemma clock_loop_at: "clock (loop_at now e s) = clock s"
  by (simp add: loop_at_def backlight_timeout_at_def)

text \<open>
  C2 (as amended). The loop body reads the clock at every call of \<^verbatim>\<open>millis()\<close>,
  several times in a pass, and uses each reading where it is taken. When the
  readings that the pass takes (the next \<open>readings_at now e s\<close> ones, whatever the
  clock returns after them) all return the same timestamp \<open>now\<close>, the loop body as
  written gives the state and outputs of the tick of the specification, in which
  that one timestamp stands for every call. The two differ in the clock alone: the
  tick of the specification leaves it as it is, the loop body has taken those
  readings from it.
\<close>

theorem loop_single_reading:
  assumes "next_readings (readings_at now e s) now (clock s)"
  shows "loop e s = (loop_at now e s)\<lparr>clock := sdrop (readings_at now e s) (clock s)\<rparr> \<and>
         clock (loop_at now e s) = clock s"
  using assms by (simp add: loop_readings clock_loop_at)

text \<open>The gate opens on a fresh board while the clock returns 2005 twelve times and
  moves on afterwards: the twelve readings are the ones the pass takes.\<close>

theorem loop_single_reading_witness:
  "readings_at 2005 \<lparr>isPressed = True, getKey = CHR 0x00\<rparr> (booted\<lparr>clock := held_clock\<rparr>) = 12 \<and>
   next_readings 12 2005 held_clock \<and>
   loop \<lparr>isPressed = True, getKey = CHR 0x00\<rparr> (booted\<lparr>clock := held_clock\<rparr>) =
     (loop_at 2005 \<lparr>isPressed = True, getKey = CHR 0x00\<rparr> (booted\<lparr>clock := held_clock\<rparr>))
       \<lparr>clock := siterate (\<lambda>t. t + 1) 2006\<rparr> \<and>
   alarmBuzzerPulseStartTime
     (loop \<lparr>isPressed = True, getKey = CHR 0x00\<rparr> (booted\<lparr>clock := held_clock\<rparr>)) = 2005"
proof -
  let ?e = "\<lparr>isPressed = True, getKey = CHR 0x00\<rparr>"
  let ?s = "booted\<lparr>clock := held_clock\<rparr>"
  have r: "readings_at 2005 ?e ?s = 12"
    by (simp add: booted_eq readings_at_def readings_events_def readings_openGate_def
          readings_activateAlarm_def readings_suspension_def readings_display_def
          readings_updateDisplay_def readings_writeLinesOnLCD_def readings_timers_def
          events_at_def openGate_at_def activateAlarm_at_def suspension_timeout_at_def
          display_at_def display_text_at_def render_at_def switchLCDBacklightOn_at_def
          isSuspended_def isInfiniteSuspension_def keypadValue_def macro_defs Let_def)
  have n: "next_readings 12 2005 (clock ?s)"
    by (simp add: held_clock_def eval_nat_numeral)
  have d: "sdrop 12 (clock ?s) = siterate (\<lambda>t. t + 1) 2006"
    by (simp add: held_clock_def eval_nat_numeral)
  have b: "alarmBuzzerPulseStartTime (loop_at 2005 ?e ?s) = 2005"
    by (simp add: booted_eq loop_at_def events_at_def openGate_at_def activateAlarm_at_def
        suspension_timeout_at_def display_at_def display_text_at_def render_at_def
        switchLCDBacklightOn_at_def timers_at_def pulse_at_def backlight_timeout_at_def
        isSuspended_def isInfiniteSuspension_def keypadValue_def leftOf_def macro_defs Let_def)
  have h: "next_readings (readings_at 2005 ?e ?s) 2005 (clock ?s)"
    using n by (simp only: r)
  note w = loop_single_reading [OF h, unfolded r d]
  then have "alarmBuzzerPulseStartTime (loop ?e ?s) = 2005"
    using b by simp
  with w r n show ?thesis
    by simp
qed

text \<open>
  C2 as stated fails: the clock advances between the calls. On a fresh board whose
  clock gains one millisecond per reading, the pass in which the gate opens stores
  the first reading, 2005, as the start of the alarm LED pulse, the second, 2006, as
  the start of the buzzer pulse, the fourth as the backlight reference and the
  fifth as the time of the display update. With the reading taken at the start of
  the pass in place of every call the buzzer pulse would start at 2005.
\<close>

theorem loop_reads_clock_repeatedly:
  "shd (clock booted) = 2005 \<and>
   alarmLEDPulseStartTime (loop \<lparr>isPressed = True, getKey = CHR 0x00\<rparr> booted) = 2005 \<and>
   alarmBuzzerPulseStartTime (loop \<lparr>isPressed = True, getKey = CHR 0x00\<rparr> booted) = 2006 \<and>
   lcdBacklightTimeoutStartTime (loop \<lparr>isPressed = True, getKey = CHR 0x00\<rparr> booted) = 2008 \<and>
   lastDisplayUpdate (loop \<lparr>isPressed = True, getKey = CHR 0x00\<rparr> booted) = 2009 \<and>
   alarmBuzzerPulseStartTime
     (loop_at (shd (clock booted)) \<lparr>isPressed = True, getKey = CHR 0x00\<rparr> booted) = 2005 \<and>
   loop \<lparr>isPressed = True, getKey = CHR 0x00\<rparr> booted \<noteq>
   loop_at (shd (clock booted)) \<lparr>isPressed = True, getKey = CHR 0x00\<rparr> booted"
proof -
  let ?e = "\<lparr>isPressed = True, getKey = CHR 0x00\<rparr>"
  have a: "alarmBuzzerPulseStartTime (loop ?e booted) = 2006"
    "alarmLEDPulseStartTime (loop ?e booted) = 2005"
    "lcdBacklightTimeoutStartTime (loop ?e booted) = 2008"
    "lastDisplayUpdate (loop ?e booted) = 2009"
    by (simp_all add: booted_eq sketch_defs dev_defs macro_defs Let_def)
  have b: "alarmBuzzerPulseStartTime (loop_at (shd (clock booted)) ?e booted) = 2005"
    by (simp add: booted_eq loop_at_def events_at_def openGate_at_def activateAlarm_at_def
        suspension_timeout_at_def display_at_def display_text_at_def render_at_def
        switchLCDBacklightOn_at_def timers_at_def pulse_at_def backlight_timeout_at_def
        isSuspended_def isInfiniteSuspension_def keypadValue_def leftOf_def macro_defs Let_def)
  have c: "shd (clock booted) = 2005"
    by (simp add: booted_eq)
  have "loop ?e booted \<noteq> loop_at (shd (clock booted)) ?e booted"
  proof
    assume "loop ?e booted = loop_at (shd (clock booted)) ?e booted"
    then have "alarmBuzzerPulseStartTime (loop ?e booted) =
               alarmBuzzerPulseStartTime (loop_at (shd (clock booted)) ?e booted)"
      by (simp only:)
    with a(1) b show False by simp
  qed
  with a b c show ?thesis by (simp only: simp_thms)
qed

section \<open>The backlight timeout\<close>

lemma lcdBacklight_switchLCDBacklightOn [simp]: "lcdBacklight (switchLCDBacklightOn s)"
  by (simp add: switchLCDBacklightOn_def dev_defs)

lemma lcdBacklight_writeLinesOnLCD:
  "lcdBacklight s \<Longrightarrow> lcdBacklight (writeLinesOnLCD a b s)"
proof -
  have "lcdBacklight (writeLinesOnLCD a b s) =
          (if a \<noteq> oldLine1 s \<or> b \<noteq> oldLine2 s
           then lcdBacklight (switchLCDBacklightOn s) else lcdBacklight s)"
    by (simp add: writeLinesOnLCD_def Let_def dev_defs)
  then show "lcdBacklight s \<Longrightarrow> lcdBacklight (writeLinesOnLCD a b s)"
    by simp
qed

lemma lcdBacklight_updateDisplay: "lcdBacklight s \<Longrightarrow> lcdBacklight (updateDisplay s)"
  by (simp add: updateDisplay_def millis_def Let_def lcdBacklight_writeLinesOnLCD)

lemma lcdBacklight_activateAlarm [simp]: "lcdBacklight (activateAlarm s) = lcdBacklight s"
  by (simp add: activateAlarm_def dev_defs)

lemma lcdBacklight_openGate [simp]: "lcdBacklight (openGate s) = lcdBacklight s"
  by (simp add: openGate_def showAlarmLED_def Let_def dev_defs)

lemma lcdBacklight_digit [simp]: "lcdBacklight (processKeypadDigit d s) = lcdBacklight s"
  by (simp add: processKeypadDigit_def)

lemma lcdBacklight_star [simp]: "lcdBacklight (processKeypadStar s) = lcdBacklight s"
  by (simp add: processKeypadStar_def reset_def hideAlarmLED_def silenceAlarm_def
        cancelSuspension_def dev_defs)

lemma lcdBacklight_hash: "lcdBacklight s \<Longrightarrow> lcdBacklight (processKeypadHash s)"
  by (simp add: processKeypadHash_def Let_def switchLCDBacklightOn_def silenceAlarm_def
        activateAlarm_def isSuspended_def isInfiniteSuspension_def dev_defs macro_defs)

lemma lcdBacklight_loop_sensor [simp]: "lcdBacklight (loop_sensor e s) = lcdBacklight s"
  by (simp add: loop_sensor_def)

lemma lcdBacklight_loop_keypad: "lcdBacklight s \<Longrightarrow> lcdBacklight (loop_keypad e s)"
  by (simp add: loop_keypad_def Let_def lcdBacklight_hash)

lemma lcdBacklight_loop_suspension [simp]: "lcdBacklight (loop_suspension s) = lcdBacklight s"
  by (simp add: loop_suspension_def cancelSuspension_def dev_defs)

lemma lcdBacklight_loop_display: "lcdBacklight s \<Longrightarrow> lcdBacklight (loop_display s)"
  by (simp add: loop_display_def millis_def lcdBacklight_updateDisplay)

lemma lcdBacklight_loop_buzzer [simp]: "lcdBacklight (loop_buzzer s) = lcdBacklight s"
  by (simp add: loop_buzzer_def dev_defs)

lemma lcdBacklight_loop_alarmLED [simp]: "lcdBacklight (loop_alarmLED s) = lcdBacklight s"
  by (simp add: loop_alarmLED_def dev_defs)

lemma lcdBacklight_loop_heartbeat [simp]: "lcdBacklight (loop_heartbeat s) = lcdBacklight s"
  by (simp add: loop_heartbeat_def dev_defs)

lemma lcdBacklight_loop_upto_heartbeat:
  "lcdBacklight s \<Longrightarrow> lcdBacklight (loop_upto_heartbeat e s)"
  by (simp add: loop_upto_heartbeat_def lcdBacklight_loop_display lcdBacklight_loop_keypad)

lemma AlarmState_loop_upto_heartbeat:
  "AlarmState (loop e s) = AlarmState (loop_upto_heartbeat e s)"
  by (simp add: loop_def)

text \<open>
  C3. Let \<open>pre\<close> be the state of a pass of the loop when its last block, the
  backlight timeout, starts, and \<open>now\<close> the clock reading that block takes. The
  block switches the backlight off (and clears the timeout reference) exactly when
  \<open>now - lcdBacklightTimeoutStartTime pre \<ge> 10000\<close>, the gate is closed, the
  suspension is off or infinite, and no suspend time is being entered
  (\<open>backlight_due pre\<close>); otherwise it leaves backlight and reference as they are. No
  earlier block of the pass switches the backlight off, so a backlight that is on
  before the pass is on after it exactly when the condition is false. The gate,
  suspension and editing flags of the condition are those the pass ends with.
\<close>

theorem backlight_auto_off:
  "(backlight_due (loop_upto_heartbeat e s) \<longrightarrow>
      \<not> lcdBacklight (loop e s) \<and> lcdBacklightTimeoutStartTime (loop e s) = 0) \<and>
   (\<not> backlight_due (loop_upto_heartbeat e s) \<longrightarrow>
      lcdBacklight (loop e s) = lcdBacklight (loop_upto_heartbeat e s) \<and>
      lcdBacklightTimeoutStartTime (loop e s) =
        lcdBacklightTimeoutStartTime (loop_upto_heartbeat e s)) \<and>
   (lcdBacklight s \<longrightarrow> lcdBacklight (loop_upto_heartbeat e s)) \<and>
   (lcdBacklight s \<longrightarrow>
      (lcdBacklight (loop e s) \<longleftrightarrow> \<not> backlight_due (loop_upto_heartbeat e s))) \<and>
   gateOpen (loop e s) = gateOpen (loop_upto_heartbeat e s) \<and>
   isSuspended (loop e s) = isSuspended (loop_upto_heartbeat e s) \<and>
   isInfiniteSuspension (loop e s) = isInfiniteSuspension (loop_upto_heartbeat e s) \<and>
   isUpdatingSuspendTime (loop e s) = isUpdatingSuspendTime (loop_upto_heartbeat e s)"
proof -
  let ?pre = "loop_upto_heartbeat e s"
  have frame: "gateOpen (loop e s) = gateOpen ?pre"
    "totalSuspendTime (loop e s) = totalSuspendTime ?pre"
    "isUpdatingSuspendTime (loop e s) = isUpdatingSuspendTime ?pre"
    using AlarmState_loop_upto_heartbeat [of e s] by (simp_all add: AlarmState_def)
  have due: "\<not> lcdBacklight (loop e s) \<and> lcdBacklightTimeoutStartTime (loop e s) = 0"
    if "backlight_due ?pre"
    using that
    by (simp add: loop_def loop_backlight_def backlight_due_def switchLCDBacklightOff_def
          isSuspended_def isInfiniteSuspension_def dev_defs)
  have not_due: "lcdBacklight (loop e s) = lcdBacklight ?pre \<and>
      lcdBacklightTimeoutStartTime (loop e s) = lcdBacklightTimeoutStartTime ?pre"
    if "\<not> backlight_due ?pre"
    using that
    by (auto simp add: loop_def loop_backlight_def backlight_due_def
          isSuspended_def isInfiniteSuspension_def dev_defs)
  show ?thesis
    using due not_due frame lcdBacklight_loop_upto_heartbeat [of s e]
    by (auto simp add: isSuspended_def isInfiniteSuspension_def)
qed

text \<open>
  On a fresh board the first pass draws the idle text and re-arms the timeout at
  the reading 2006: the backlight stays on. A pass eleven seconds later finds the
  timeout expired and switches the backlight off; had the gate opened in that
  pass, the backlight would have stayed on.
\<close>

theorem backlight_auto_off_witness:
  "lcdBacklight (loop idle booted) \<and>
   \<not> backlight_due (loop_upto_heartbeat idle booted) \<and>
   lcdBacklightTimeoutStartTime (loop idle booted) = 2006 \<and>
   lcdBacklight (loop idle booted\<lparr>clock := siterate (\<lambda>t. t + 1) 13000\<rparr>) \<and>
   backlight_due
     (loop_upto_heartbeat idle (loop idle booted\<lparr>clock := siterate (\<lambda>t. t + 1) 13000\<rparr>)) \<and>
   \<not> lcdBacklight (loop idle (loop idle booted\<lparr>clock := siterate (\<lambda>t. t + 1) 13000\<rparr>)) \<and>
   \<not> backlight_due
     (loop_upto_heartbeat \<lparr>isPressed = True, getKey = CHR 0x00\<rparr>
        (loop idle booted\<lparr>clock := siterate (\<lambda>t. t + 1) 13000\<rparr>)) \<and>
   lcdBacklight
     (loop \<lparr>isPressed = True, getKey = CHR 0x00\<rparr>
        (loop idle booted\<lparr>clock := siterate (\<lambda>t. t + 1) 13000\<rparr>))"
  using backlight_auto_off [of idle booted]
    backlight_auto_off [of idle "loop idle booted\<lparr>clock := siterate (\<lambda>t. t + 1) 13000\<rparr>"]
    backlight_auto_off [of "\<lparr>isPressed = True, getKey = CHR 0x00\<rparr>"
      "loop idle booted\<lparr>clock := siterate (\<lambda>t. t + 1) 13000\<rparr>"]
  by (simp add: idle_def booted_eq backlight_due_def sketch_defs dev_defs macro_defs Let_def)

section \<open>The buzzer pulse\<close>

text \<open>The buzzer block of the loop takes two readings of the clock: the first
  decides whether the cycle is over, the second is the one that is stored or
  compared with the on-time.\<close>

lemma loop_buzzer_readings:
  assumes "alarmSounding s"
  shows "loop_buzzer s =
     (if shd (clock s) - alarmBuzzerPulseStartTime s > ALARM_BUZZER_CYCLE_TIME
      then s\<lparr>clock := stl (stl (clock s)),
             alarmBuzzerPulseStartTime := shd (stl (clock s))\<rparr>
      else digitalWrite ALARM_BUZZER_PIN
             (shd (stl (clock s)) - alarmBuzzerPulseStartTime s < ALARM_BUZZER_ON_TIME)
             (s\<lparr>clock := stl (stl (clock s))\<rparr>))"
  using assms by (simp add: loop_buzzer_def millis_def)

lemma BuzzerState_clock [simp]: "BuzzerState (s\<lparr>clock := c\<rparr>) = BuzzerState s"
  by (simp add: BuzzerState_def)

lemma BuzzerState_openGate:
  "alarmSounding s \<Longrightarrow> BuzzerState (openGate s) = BuzzerState s"
  by (simp add: BuzzerState_def openGate_def showAlarmLED_def activateAlarm_def Let_def
        millis_def digitalWrite_def ALARM_LED_PIN_def ALARM_BUZZER_PIN_def)

lemma BuzzerState_loop_sensor:
  "alarmSounding s \<Longrightarrow> BuzzerState (loop_sensor e s) = BuzzerState s"
  by (simp add: loop_sensor_def BuzzerState_openGate)

lemma BuzzerState_digit [simp]: "BuzzerState (processKeypadDigit d s) = BuzzerState s"
  by (simp add: BuzzerState_def processKeypadDigit_def)

lemma BuzzerState_hash:
  assumes "alarmSounding s" "alarmSounding (processKeypadHash s)"
  shows "BuzzerState (processKeypadHash s) = BuzzerState s"
  using assms
  by (cases "isUpdatingSuspendTime s"; cases "suspendTimeAccumulator s = 0";
      cases "suspendTimeAccumulator s * 60000 = 0"; cases "suspendTimeAccumulator s * 60000 = - 1";
      cases "gateOpen s")
     (simp_all add: BuzzerState_def processKeypadHash_def switchLCDBacklightOn_def
        lcd_backlight_def silenceAlarm_def activateAlarm_def isSuspended_def
        isInfiniteSuspension_def millis_def digitalWrite_def Let_def macro_defs)

lemma star_silences: "\<not> alarmSounding (processKeypadStar s)"
  by (simp add: processKeypadStar_def reset_def hideAlarmLED_def silenceAlarm_def
        cancelSuspension_def digitalWrite_def)

lemma BuzzerState_loop_keypad:
  assumes "alarmSounding s" "alarmSounding (loop_keypad e s)"
  shows "BuzzerState (loop_keypad e s) = BuzzerState s"
proof (cases "getKey e = CHR 0x00")
  case True
  then show ?thesis by (simp add: loop_keypad_def)
next
  case key: False
  show ?thesis
  proof (cases "0 \<le> keypadValue (getKey e) \<and> keypadValue (getKey e) \<le> 9")
    case True
    with key show ?thesis by (simp add: loop_keypad_def Let_def)
  next
    case nodigit: False
    show ?thesis
    proof (cases "keypadValue (getKey e) = HASH_KEY")
      case True
      with key nodigit have "loop_keypad e s = processKeypadHash s"
        by (simp add: loop_keypad_def Let_def HASH_KEY_def)
      with assms show ?thesis by (simp add: BuzzerState_hash)
    next
      case nohash: False
      show ?thesis
      proof (cases "keypadValue (getKey e) = STAR_KEY")
        case True
        with key nodigit nohash have "loop_keypad e s = processKeypadStar s"
          by (simp add: loop_keypad_def Let_def HASH_KEY_def STAR_KEY_def)
        with assms(2) star_silences [of s] show ?thesis by simp
      next
        case False
        with key nodigit nohash show ?thesis by (simp add: loop_keypad_def Let_def)
      qed
    qed
  qed
qed

lemma BuzzerState_loop_suspension:
  "alarmSounding s \<Longrightarrow> BuzzerState (loop_suspension s) = BuzzerState s"
  by (simp add: BuzzerState_def loop_suspension_def activateAlarm_def cancelSuspension_def
        millis_def)

lemma BuzzerState_switchLCDBacklightOn [simp]:
  "BuzzerState (switchLCDBacklightOn s) = BuzzerState s"
  by (simp add: BuzzerState_def switchLCDBacklightOn_def millis_def lcd_backlight_def)

lemma BuzzerState_writeLinesOnLCD [simp]: "BuzzerState (writeLinesOnLCD a b s) = BuzzerState s"
proof -
  have "BuzzerState (writeLinesOnLCD a b s) =
          (if a \<noteq> oldLine1 s \<or> b \<noteq> oldLine2 s
           then BuzzerState (switchLCDBacklightOn s) else BuzzerState s)"
    by (simp add: writeLinesOnLCD_def Let_def BuzzerState_def lcd_clear_def lcd_setCursor_def
          lcd_print_def)
  then show ?thesis by simp
qed

lemma BuzzerState_updateDisplay [simp]: "BuzzerState (updateDisplay s) = BuzzerState s"
  by (simp add: updateDisplay_def millis_def Let_def)

lemma BuzzerState_loop_display [simp]: "BuzzerState (loop_display s) = BuzzerState s"
proof -
  have "BuzzerState (s'\<lparr>lastDisplayUpdate := x\<rparr>) = BuzzerState s'" for s' x
    by (simp add: BuzzerState_def)
  then show ?thesis
    by (simp add: loop_display_def millis_def)
qed

lemma BuzzerState_loop_alarmLED [simp]: "BuzzerState (loop_alarmLED s) = BuzzerState s"
  by (simp add: BuzzerState_def loop_alarmLED_def millis_def digitalWrite_def
        ALARM_LED_PIN_def ALARM_BUZZER_PIN_def)

lemma BuzzerState_loop_heartbeat [simp]: "BuzzerState (loop_heartbeat s) = BuzzerState s"
  by (simp add: BuzzerState_def loop_heartbeat_def millis_def digitalWrite_def
        HEARTBEAT_LED_PIN_def ALARM_BUZZER_PIN_def)

lemma BuzzerState_loop_backlight [simp]: "BuzzerState (loop_backlight s) = BuzzerState s"
  by (simp add: BuzzerState_def loop_backlight_def switchLCDBacklightOff_def millis_def
        lcd_noBacklight_def)

lemma BuzzerState_loop_upto_display:
  assumes "alarmSounding s" "alarmSounding (loop_keypad e (loop_sensor e s))"
  shows "BuzzerState (loop_upto_display e s) = BuzzerState s"
proof -
  have 1: "BuzzerState (loop_sensor e s) = BuzzerState s"
    using assms(1) by (rule BuzzerState_loop_sensor)
  then have "alarmSounding (loop_sensor e s)"
    using assms(1) by (simp add: BuzzerState_def)
  from BuzzerState_loop_keypad [OF this assms(2)] 1
  have 2: "BuzzerState (loop_keypad e (loop_sensor e s)) = BuzzerState s"
    by simp
  from BuzzerState_loop_suspension [OF assms(2)] 2 show ?thesis
    by (simp add: loop_upto_display_def)
qed

lemma BuzzerState_loop:
  "BuzzerState (loop e s) = BuzzerState (loop_buzzer (loop_upto_display e s))"
  by (simp add: loop_def loop_upto_heartbeat_def loop_upto_display_def)

text \<open>
  C9 (as amended). While the alarm is sounding (before the pass, and after the key
  of the pass has been handled), the buzzer block takes two readings of the clock,
  \<open>r1\<close> and then \<open>r2\<close>, and the alarm still sounds after the pass. If
  \<open>r1 - alarmBuzzerPulseStartTime \<le> 2500\<close> the buzzer output is driven high when
  \<open>r2 - alarmBuzzerPulseStartTime < 1500\<close> and low otherwise, and the reference time
  is kept. If \<open>r1 - alarmBuzzerPulseStartTime > 2500\<close> the reference time becomes \<open>r2\<close>
  and the output keeps the value it had before the pass. When both readings are the
  same timestamp this is the pulse of the specification: high for the first 1500 ms
  of a cycle of 2500 ms, low for the remaining 1000 ms, rebased after that.
  Subtraction and comparison are those of \<^verbatim>\<open>unsigned long\<close>.
\<close>

theorem buzzer_two_readings:
  assumes "alarmSounding s" "alarmSounding (loop_keypad e (loop_sensor e s))"
  shows "alarmSounding (loop e s) \<and>
         (buzzer_first_reading e s - alarmBuzzerPulseStartTime s \<le> ALARM_BUZZER_CYCLE_TIME \<and>
          buzzer_second_reading e s - alarmBuzzerPulseStartTime s < ALARM_BUZZER_ON_TIME \<longrightarrow>
            pins (loop e s) ALARM_BUZZER_PIN \<and>
            alarmBuzzerPulseStartTime (loop e s) = alarmBuzzerPulseStartTime s) \<and>
         (buzzer_first_reading e s - alarmBuzzerPulseStartTime s \<le> ALARM_BUZZER_CYCLE_TIME \<and>
          ALARM_BUZZER_ON_TIME \<le> buzzer_second_reading e s - alarmBuzzerPulseStartTime s \<longrightarrow>
            \<not> pins (loop e s) ALARM_BUZZER_PIN \<and>
            alarmBuzzerPulseStartTime (loop e s) = alarmBuzzerPulseStartTime s) \<and>
         (ALARM_BUZZER_CYCLE_TIME < buzzer_first_reading e s - alarmBuzzerPulseStartTime s \<longrightarrow>
            pins (loop e s) ALARM_BUZZER_PIN = pins s ALARM_BUZZER_PIN \<and>
            alarmBuzzerPulseStartTime (loop e s) = buzzer_second_reading e s) \<and>
         ALARM_BUZZER_ON_TIME = 1500 \<and> ALARM_BUZZER_CYCLE_TIME = 2500 \<and>
         ALARM_BUZZER_CYCLE_TIME - ALARM_BUZZER_ON_TIME = 1000"
proof -
  let ?pre = "loop_upto_display e s"
  have pre: "alarmSounding ?pre"
    "alarmBuzzerPulseStartTime ?pre = alarmBuzzerPulseStartTime s"
    "pins ?pre ALARM_BUZZER_PIN = pins s ALARM_BUZZER_PIN"
    using BuzzerState_loop_upto_display [OF assms] assms(1) by (simp_all add: BuzzerState_def)
  have c: "ALARM_BUZZER_ON_TIME = 1500" "ALARM_BUZZER_CYCLE_TIME = 2500"
    "ALARM_BUZZER_CYCLE_TIME - ALARM_BUZZER_ON_TIME = 1000"
    by (simp_all add: macro_defs)
  have bz: "alarmSounding (loop e s) = alarmSounding (loop_buzzer ?pre)"
    "alarmBuzzerPulseStartTime (loop e s) = alarmBuzzerPulseStartTime (loop_buzzer ?pre)"
    "pins (loop e s) ALARM_BUZZER_PIN = pins (loop_buzzer ?pre) ALARM_BUZZER_PIN"
    using BuzzerState_loop [of e s] by (simp_all add: BuzzerState_def)
  have over: "BuzzerState (loop e s) =
              (True, buzzer_second_reading e s, pins s ALARM_BUZZER_PIN)"
    if "ALARM_BUZZER_CYCLE_TIME < buzzer_first_reading e s - alarmBuzzerPulseStartTime s"
    using that pre
    by (simp add: bz loop_buzzer_readings [OF pre(1)] BuzzerState_def buzzer_first_reading_def
          buzzer_second_reading_def)
  have within: "BuzzerState (loop e s) =
              (True, alarmBuzzerPulseStartTime s,
               buzzer_second_reading e s - alarmBuzzerPulseStartTime s < ALARM_BUZZER_ON_TIME)"
    if "buzzer_first_reading e s - alarmBuzzerPulseStartTime s \<le> ALARM_BUZZER_CYCLE_TIME"
    using leD [OF that] pre
    by (simp add: bz loop_buzzer_readings [OF pre(1)] BuzzerState_def buzzer_first_reading_def
          buzzer_second_reading_def digitalWrite_def)
  have snd: "alarmSounding (loop e s)"
    using bz pre(1) by (simp add: BuzzerState_def loop_buzzer_readings [OF pre(1)] digitalWrite_def)
  show ?thesis
    using over within snd c by (auto simp add: BuzzerState_def)
qed

text \<open>
  The alarm started at 2006. The block that reads 3504 and 3505 drives the output
  high, the one that reads 3505 and 3506 drives it low, and the one that reads 4507
  and 4508 rebases the reference time to 4508 and leaves the output as it was.
\<close>

theorem buzzer_two_readings_witness:
  "alarmSounding (alarm_started 3501) \<and>
   alarmSounding (loop_keypad idle (loop_sensor idle (alarm_started 3501))) \<and>
   alarmBuzzerPulseStartTime (alarm_started 3501) = 2006 \<and>
   buzzer_first_reading idle (alarm_started 3501) = 3504 \<and>
   buzzer_second_reading idle (alarm_started 3501) = 3505 \<and>
   pins (loop idle (alarm_started 3501)) ALARM_BUZZER_PIN \<and>
   alarmBuzzerPulseStartTime (loop idle (alarm_started 3501)) = 2006 \<and>
   \<not> pins (loop idle (alarm_started 3502)) ALARM_BUZZER_PIN \<and>
   pins (loop idle (alarm_started 4504)) ALARM_BUZZER_PIN \<and>
   alarmBuzzerPulseStartTime (loop idle (alarm_started 4504)) = 4508"
proof -
  have h: "alarmSounding (alarm_started t)"
    "alarmSounding (loop_keypad idle (loop_sensor idle (alarm_started t)))"
    "alarmBuzzerPulseStartTime (alarm_started t) = 2006"
    "pins (alarm_started t) ALARM_BUZZER_PIN" for t
    by (simp_all add: alarm_started_def idle_def booted_eq loop_keypad_def loop_sensor_def
          openGate_def showAlarmLED_def activateAlarm_def isSuspended_def dev_defs macro_defs
          Let_def)
  have r: "buzzer_first_reading idle (alarm_started 3501) = 3504"
    "buzzer_second_reading idle (alarm_started 3501) = 3505"
    "buzzer_first_reading idle (alarm_started 3502) = 3505"
    "buzzer_second_reading idle (alarm_started 3502) = 3506"
    "buzzer_first_reading idle (alarm_started 4504) = 4507"
    "buzzer_second_reading idle (alarm_started 4504) = 4508"
    by (simp_all add: alarm_started_def idle_def booted_eq buzzer_first_reading_def
          buzzer_second_reading_def loop_upto_display_def sketch_defs dev_defs macro_defs Let_def)
  have c: "ALARM_BUZZER_ON_TIME = 1500" "ALARM_BUZZER_CYCLE_TIME = 2500"
    by (simp_all add: macro_defs)
  have t: "(3504 :: u32) - 2006 \<le> 2500" "(3505 :: u32) - 2006 < 1500"
    "(3505 :: u32) - 2006 \<le> 2500" "(1500 :: u32) \<le> 3506 - 2006"
    "(2500 :: u32) < 4507 - 2006"
    by simp_all
  note w1 = buzzer_two_readings [OF h(1,2), of 3501, unfolded r h c]
  note w2 = buzzer_two_readings [OF h(1,2), of 3502, unfolded r h c]
  note w3 = buzzer_two_readings [OF h(1,2), of 4504, unfolded r h c]
  have "pins (loop idle (alarm_started 3501)) ALARM_BUZZER_PIN \<and>
        alarmBuzzerPulseStartTime (loop idle (alarm_started 3501)) = 2006"
    using w1 t(1,2) by (simp only: simp_thms)
  moreover have "\<not> pins (loop idle (alarm_started 3502)) ALARM_BUZZER_PIN"
    using w2 t(3,4) by (simp only: simp_thms)
  moreover have "pins (loop idle (alarm_started 4504)) ALARM_BUZZER_PIN \<and>
        alarmBuzzerPulseStartTime (loop idle (alarm_started 4504)) = 4508"
    using w3 t(5) h(4) [of 4504] by (simp only: simp_thms)
  ultimately show ?thesis
    using h r by (simp only: simp_thms)
qed

text \<open>
  C9 as stated fails, whichever of the two readings is taken for \<open>now\<close>. The alarm
  started at 2006 and the clock gains one millisecond per reading. In the pass
  whose buzzer block reads 3505 and then 3506, the first reading is 1499 ms after
  the start, yet the output is driven low. In the pass whose block reads 4506 and
  then 4507, the second reading is 2501 ms after the start, yet the reference time
  is not rebased and the output is driven low. In the pass whose block reads 4507
  and then 4508, the reference time becomes 4508, not 4507.
\<close>

theorem buzzer_readings_differ:
  "alarmSounding (alarm_started 3502) \<and>
   alarmBuzzerPulseStartTime (alarm_started 3502) = 2006 \<and>
   buzzer_first_reading idle (alarm_started 3502) = 3505 \<and>
   buzzer_second_reading idle (alarm_started 3502) = 3506 \<and>
   alarmSounding (loop idle (alarm_started 3502)) \<and>
   \<not> pins (loop idle (alarm_started 3502)) ALARM_BUZZER_PIN \<and>
   buzzer_first_reading idle (alarm_started 4503) = 4506 \<and>
   buzzer_second_reading idle (alarm_started 4503) = 4507 \<and>
   alarmSounding (loop idle (alarm_started 4503)) \<and>
   \<not> pins (loop idle (alarm_started 4503)) ALARM_BUZZER_PIN \<and>
   alarmBuzzerPulseStartTime (loop idle (alarm_started 4503)) = 2006 \<and>
   buzzer_first_reading idle (alarm_started 4504) = 4507 \<and>
   buzzer_second_reading idle (alarm_started 4504) = 4508 \<and>
   alarmBuzzerPulseStartTime (loop idle (alarm_started 4504)) = 4508"
proof -
  have a: "alarmSounding (alarm_started 3502)"
    "alarmBuzzerPulseStartTime (alarm_started 3502) = 2006"
    "buzzer_first_reading idle (alarm_started 3502) = 3505"
    "buzzer_second_reading idle (alarm_started 3502) = 3506"
    "alarmSounding (loop idle (alarm_started 3502))"
    "\<not> pins (loop idle (alarm_started 3502)) ALARM_BUZZER_PIN"
    by (simp_all add: alarm_started_def idle_def booted_eq buzzer_first_reading_def
          buzzer_second_reading_def loop_upto_display_def sketch_defs dev_defs macro_defs Let_def)
  have b: "buzzer_first_reading idle (alarm_started 4503) = 4506"
    "buzzer_second_reading idle (alarm_started 4503) = 4507"
    "alarmSounding (loop idle (alarm_started 4503))"
    "\<not> pins (loop idle (alarm_started 4503)) ALARM_BUZZER_PIN"
    "alarmBuzzerPulseStartTime (loop idle (alarm_started 4503)) = 2006"
    by (simp_all add: alarm_started_def idle_def booted_eq buzzer_first_reading_def
          buzzer_second_reading_def loop_upto_display_def sketch_defs dev_defs macro_defs Let_def)
  have c: "buzzer_first_reading idle (alarm_started 4504) = 4507"
    "buzzer_second_reading idle (alarm_started 4504) = 4508"
    "alarmBuzzerPulseStartTime (loop idle (alarm_started 4504)) = 4508"
    by (simp_all add: alarm_started_def idle_def booted_eq buzzer_first_reading_def
          buzzer_second_reading_def loop_upto_display_def sketch_defs dev_defs macro_defs Let_def)
  from a b c show ?thesis by (simp only: simp_thms)
qed

end
